theory Spec2Isabelle
  imports Complex_Main
begin

section \<open>Values, exceptions and collaborators\<close>

text \<open>
  A model of \<open>transitfeed/pathway.py\<close>: the class \<open>Pathway\<close>, its constructor and its
  validation methods, read with the semantics of Python 3 (one unbounded integer type,
  no ordering between integers and other types).

  The fields of a pathway hold dynamically typed Python values. The model covers the
  values a feed row or a caller puts there: \<open>None\<close>, strings and (unbounded) integers.
  A Python \<open>bool\<close> is an \<open>int\<close> subclass and is read as \<open>PInt 0\<close> or \<open>PInt 1\<close>; floats
  and containers as field values are outside the model.
\<close>

datatype pyval = PNone | PStr string | PInt int

datatype exn = TypeError | ValueError | AttributeError | KeyError

datatype severity = TYPE_ERROR | TYPE_WARNING

text \<open>A reporter object (the \<open>problems\<close> argument) is identified by a number.\<close>

type_synonym reporter = nat

text \<open>
  The calls \<open>pathway.py\<close> makes on the problem reporter, with the arguments as the source
  passes them. The keyword \<open>type\<close> is \<open>None\<close> where the source omits it; \<open>reason\<close>
  likewise. A computed distance is the real number the float denotes: the source only
  compares it with integers and halves it, both exact on floats.

  Modelled from the spec: the reporter of \<open>transitfeed.problems\<close>, which is not part of
  \<open>pathway.py\<close>. Section 6 and the glossary of the spec: a sink that records each finding;
  a call on it is recorded in the trace and returns.
\<close>

datatype call =
    MissingValue string
  | InvalidValue string pyval "string option" "severity option"
  | MinimumPathwayTimeSetWithInvalidPathwayMode pyval
  | PathwayDistanceTooBig pyval pyval real "severity option"
  | PathwayWalkingSpeedTooFast pyval pyval pyval real

text \<open>
  Modelled from the spec: the severity the reporter of \<open>transitfeed.problems\<close> (not part
  of \<open>pathway.py\<close>) gives a call. Section 6 of the spec: error by default, warning when
  noted; section 4.4 notes the walking-speed problem as a warning.
\<close>

fun severity_of :: "call \<Rightarrow> severity" where
  "severity_of (MissingValue _) = TYPE_ERROR"
| "severity_of (InvalidValue _ _ _ ty) = (case ty of None \<Rightarrow> TYPE_ERROR | Some t \<Rightarrow> t)"
| "severity_of (MinimumPathwayTimeSetWithInvalidPathwayMode _) = TYPE_ERROR"
| "severity_of (PathwayDistanceTooBig _ _ _ ty) = (case ty of None \<Rightarrow> TYPE_ERROR | Some t \<Rightarrow> t)"
| "severity_of (PathwayWalkingSpeedTooFast _ _ _ _) = TYPE_WARNING"

text \<open>The registry: its stop collection, a dict from stop id to stop.\<close>

record 's Schedule =
  stops :: "pyval \<rightharpoonup> 's"

text \<open>
  A pathway object: its \<open>__dict__\<close> of field attributes and the back-reference
  \<open>_schedule\<close>. Keys of a field mapping are column names, so they never overwrite
  \<open>_schedule\<close>, which is kept apart.
\<close>

record 's Pathway =
  attrs :: "string \<rightharpoonup> pyval"
  p_schedule :: "'s Schedule option"

text \<open>
  The helpers of \<open>transitfeed.util\<close> that \<open>pathway.py\<close> calls are not part of the file;
  every function below takes them as a parameter. A parse that raises is \<open>Inl\<close>.
\<close>

record 's util =
  IsEmpty :: "pyval \<Rightarrow> bool"
  NonNegIntStringToInt :: "pyval \<Rightarrow> exn + int"
  ApproximateDistanceBetweenStops :: "'s \<Rightarrow> 's \<Rightarrow> real"

text \<open>
  The trace of an execution, in order: each method entered, each call on the reporter,
  each access to the registry's stop collection, the operands each time the walking-speed
  comparison of line 165 is evaluated, and each registration call on a registry (with the
  reporter argument, \<open>None\<close> when the call passes none).
\<close>

datatype 's event =
    Enter string
  | Report reporter call
  | StopsKeys
  | StopsGet pyval
  | WalkingSpeedCompare pyval real
  | AddPathwayObject "'s Schedule" "'s Pathway" "reporter option"

section \<open>Attribute access\<close>

definition FIELD_NAMES :: "string list" where
  "FIELD_NAMES =
     [''pathway_id'', ''from_stop_id'', ''to_stop_id'', ''pathway_mode'', ''is_bidirectional'']
     @ [''length'', ''traversal_time'', ''stair_count'', ''max_slope'', ''min_width'',
        ''signposted_as'', ''reversed_signposted_as'']"

text \<open>
  Modelled from the spec: attribute lookup of the base class \<open>GtfsObjectBase\<close> (not part
  of \<open>pathway.py\<close>). Section 3 and 6 of the spec: a field absent from the object reads as
  null. So \<open>self.name\<close> for a name of \<open>FIELD_NAMES\<close> (\<open>fld\<close>, only applied to such names)
  gives the stored value or \<open>None\<close>, and \<open>hasattr\<close> holds for every name of \<open>FIELD_NAMES\<close>.
\<close>

definition fld :: "'s Pathway \<Rightarrow> string \<Rightarrow> pyval" where
  "fld self name = (case attrs self name of None \<Rightarrow> PNone | Some v \<Rightarrow> v)"

definition hasattr :: "'s Pathway \<Rightarrow> string \<Rightarrow> bool" where
  "hasattr self name = (attrs self name \<noteq> None \<or> name \<in> set FIELD_NAMES)"

definition setattr :: "'s Pathway \<Rightarrow> string \<Rightarrow> pyval \<Rightarrow> 's Pathway" where
  "setattr self name v = self\<lparr>attrs := (attrs self)(name \<mapsto> v)\<rparr>"

text \<open>\<open>self.__dict__.update(field_dict)\<close>: later pairs overwrite earlier ones.\<close>

definition dict_update :: "'s Pathway \<Rightarrow> (string \<times> pyval) list \<Rightarrow> 's Pathway" where
  "dict_update self field_dict =
     self\<lparr>attrs := fold (\<lambda>(k, v) m. m(k \<mapsto> v)) field_dict (attrs self)\<rparr>"

text \<open>Truth value of the \<open>field_dict\<close> argument: \<open>None\<close> and the empty dict are false.\<close>

definition truthy_dict :: "(string \<times> pyval) list option \<Rightarrow> bool" where
  "truthy_dict field_dict = (case field_dict of None \<Rightarrow> False | Some d \<Rightarrow> d \<noteq> [])"

section \<open>Python operators on field values\<close>

definition isinstance_int :: "pyval \<Rightarrow> bool" where
  "isinstance_int v = (case v of PInt _ \<Rightarrow> True | _ \<Rightarrow> False)"

text \<open>\<open>v in range(lo, hi)\<close>.\<close>

definition in_range :: "pyval \<Rightarrow> int \<Rightarrow> int \<Rightarrow> bool" where
  "in_range v lo hi = (case v of PInt n \<Rightarrow> lo \<le> n \<and> n < hi | _ \<Rightarrow> False)"

text \<open>\<open>v < 0\<close> and \<open>v + 120\<close> (Python 3): defined on integers, \<open>TypeError\<close> on \<open>None\<close> and strings.\<close>

definition py_lt :: "pyval \<Rightarrow> int \<Rightarrow> exn + bool" where
  "py_lt v k = (case v of PInt n \<Rightarrow> Inr (n < k) | _ \<Rightarrow> Inl TypeError)"

definition py_add :: "pyval \<Rightarrow> int \<Rightarrow> exn + int" where
  "py_add v k = (case v of PInt n \<Rightarrow> Inr (n + k) | _ \<Rightarrow> Inl TypeError)"

text \<open>A non-negative integer.\<close>

definition nonneg_int :: "pyval \<Rightarrow> bool" where
  "nonneg_int v = (case v of PInt t \<Rightarrow> 0 \<le> t | _ \<Rightarrow> False)"

section \<open>Construction\<close>

text \<open>
  The statement pattern of lines 46-49 and 52-55:
  \<open>try: self.X = util.NonNegIntStringToInt(self.X)\<close>, \<open>except (TypeError, ValueError): pass\<close>.
  Any other exception propagates.
\<close>

definition try_NonNegIntStringToInt :: "'s util \<Rightarrow> 's Pathway \<Rightarrow> string \<Rightarrow> exn + 's Pathway" where
  "try_NonNegIntStringToInt util self name =
     (case NonNegIntStringToInt util (fld self name) of
        Inr n \<Rightarrow> Inr (setattr self name (PInt n))
      | Inl e \<Rightarrow> if e = TypeError \<or> e = ValueError then Inr self else Inl e)"

text \<open>
  The constructor. The call \<open>schedule.AddPathwayObject(self)\<close> of line 62 is recorded in
  the trace; what the registry then does with the record is the registry's code, and the
  result is the record as the constructor hands it over.
\<close>

definition Pathway_init ::
  "'s util \<Rightarrow> 's Schedule option \<Rightarrow> pyval \<Rightarrow> pyval \<Rightarrow> pyval \<Rightarrow> pyval \<Rightarrow> pyval \<Rightarrow> pyval \<Rightarrow>
   (string \<times> pyval) list option \<Rightarrow> 's event list \<Rightarrow> (exn + 's Pathway) \<times> 's event list" where
  "Pathway_init util schedule pathway_id from_stop_id to_stop_id pathway_mode
       is_bidirectional traversal_time field_dict tr =
     (let tr1 = tr @ [Enter ''__init__''];
          self0 = \<lparr>attrs = Map.empty, p_schedule = None\<rparr>;
          self1 = (if truthy_dict field_dict then dict_update self0 (the field_dict)
                   else setattr (setattr (setattr (setattr (setattr (setattr self0
                          ''pathway_id'' pathway_id)
                          ''from_stop_id'' from_stop_id)
                          ''to_stop_id'' to_stop_id)
                          ''pathway_mode'' pathway_mode)
                          ''traversal_time'' traversal_time)
                          ''is_bidirectional'' is_bidirectional)
      in case (if fld self1 ''pathway_mode'' = PStr '''' \<or> fld self1 ''pathway_mode'' = PNone
               then Inr (setattr self1 ''pathway_mode'' (PInt 2))
               else try_NonNegIntStringToInt util self1 ''pathway_mode'') of
           Inl e \<Rightarrow> (Inl e, tr1)
         | Inr self2 \<Rightarrow>
            (case (if hasattr self2 ''traversal_time''
                   then try_NonNegIntStringToInt util self2 ''traversal_time''
                   else Inr (setattr self2 ''traversal_time'' PNone)) of
               Inl e \<Rightarrow> (Inl e, tr1)
             | Inr self3 \<Rightarrow>
                (case schedule of
                   Some sched \<Rightarrow> (Inr self3, tr1 @ [AddPathwayObject sched self3 None])
                 | None \<Rightarrow> (Inr self3, tr1))))"

section \<open>Checks before registration\<close>

definition ValidateFromStopIdIsPresent ::
  "'s util \<Rightarrow> 's Pathway \<Rightarrow> reporter \<Rightarrow> 's event list \<Rightarrow> bool \<times> 's event list" where
  "ValidateFromStopIdIsPresent util self problems tr =
     (let tr1 = tr @ [Enter ''ValidateFromStopIdIsPresent'']
      in if IsEmpty util (fld self ''from_stop_id'')
         then (False, tr1 @ [Report problems (MissingValue ''from_stop_id'')])
         else (True, tr1))"

definition ValidateToStopIdIsPresent ::
  "'s util \<Rightarrow> 's Pathway \<Rightarrow> reporter \<Rightarrow> 's event list \<Rightarrow> bool \<times> 's event list" where
  "ValidateToStopIdIsPresent util self problems tr =
     (let tr1 = tr @ [Enter ''ValidateToStopIdIsPresent'']
      in if IsEmpty util (fld self ''to_stop_id'')
         then (False, tr1 @ [Report problems (MissingValue ''to_stop_id'')])
         else (True, tr1))"

definition ValidatePathwayMode ::
  "'s util \<Rightarrow> 's Pathway \<Rightarrow> reporter \<Rightarrow> 's event list \<Rightarrow> bool \<times> 's event list" where
  "ValidatePathwayMode util self problems tr =
     (let tr1 = tr @ [Enter ''ValidatePathwayMode'']
      in if \<not> IsEmpty util (fld self ''pathway_mode'')
         then (if \<not> isinstance_int (fld self ''pathway_mode'')
                  \<or> \<not> in_range (fld self ''pathway_mode'') 1 8
               then (False, tr1 @ [Report problems
                       (InvalidValue ''pathway_mode'' (fld self ''pathway_mode'') None None)])
               else (True, tr1))
         else (True, tr1))"

definition ValidateMinimumPathwayTime ::
  "'s util \<Rightarrow> 's Pathway \<Rightarrow> reporter \<Rightarrow> 's event list \<Rightarrow> bool \<times> 's event list" where
  "ValidateMinimumPathwayTime util self problems tr =
     (let tr1 = tr @ [Enter ''ValidateMinimumPathwayTime''];
          traversal_time = fld self ''traversal_time''
      in if \<not> IsEmpty util traversal_time
         then
           (let tr2 = (if fld self ''pathway_mode'' \<noteq> PInt 2
                       then tr1 @ [Report problems
                              (MinimumPathwayTimeSetWithInvalidPathwayMode (fld self ''pathway_mode''))]
                       else tr1)
            in case traversal_time of
                 PInt t \<Rightarrow>
                   if t < 0
                   then (True, tr2 @ [Report problems (InvalidValue ''traversal_time'' traversal_time
                           (Some ''This field cannot contain a negative value.'') None)])
                   else if t \<ge> 24 * 3600
                   then (True, tr2 @ [Report problems (InvalidValue ''traversal_time'' traversal_time
                           (Some ''The value is very large for a transfer time and most likely indicates an error.'')
                           None)])
                   else if t \<ge> 3 * 3600
                   then (True, tr2 @ [Report problems (InvalidValue ''traversal_time'' traversal_time
                           (Some ''The value is large for a transfer time and most likely indicates an error.'')
                           (Some TYPE_WARNING))])
                   else (True, tr2)
               | _ \<Rightarrow>
                   (False, tr2 @ [Report problems (InvalidValue ''traversal_time'' traversal_time
                      (Some ''If present, this field should contain an integer value.'') None)]))
         else (True, tr1))"

definition ValidateBeforeAdd ::
  "'s util \<Rightarrow> 's Pathway \<Rightarrow> reporter \<Rightarrow> 's event list \<Rightarrow> bool \<times> 's event list" where
  "ValidateBeforeAdd util self problems tr =
     (let tr0 = tr @ [Enter ''ValidateBeforeAdd''];
          result0 = True;
          (r1, tr1) = ValidateFromStopIdIsPresent util self problems tr0;
          result1 = (r1 \<and> result0);
          (r2, tr2) = ValidateToStopIdIsPresent util self problems tr1;
          result2 = (r2 \<and> result1);
          (r3, tr3) = ValidatePathwayMode util self problems tr2;
          result3 = (r3 \<and> result2);
          (r4, tr4) = ValidateMinimumPathwayTime util self problems tr3;
          result4 = (r4 \<and> result3)
      in (result4, tr4))"

section \<open>Checks after registration\<close>

definition GetPathwayDistance ::
  "'s util \<Rightarrow> 's Pathway \<Rightarrow> 's event list \<Rightarrow> (exn + real) \<times> 's event list" where
  "GetPathwayDistance util self tr =
     (let tr1 = tr @ [Enter ''GetPathwayDistance'']
      in case p_schedule self of
           None \<Rightarrow> (Inl AttributeError, tr1)
         | Some sched \<Rightarrow>
            (let tr2 = tr1 @ [StopsGet (fld self ''from_stop_id'')]
             in case stops sched (fld self ''from_stop_id'') of
                  None \<Rightarrow> (Inl KeyError, tr2)
                | Some from_stop \<Rightarrow>
                   (let tr3 = tr2 @ [StopsGet (fld self ''to_stop_id'')]
                    in case stops sched (fld self ''to_stop_id'') of
                         None \<Rightarrow> (Inl KeyError, tr3)
                       | Some to_stop \<Rightarrow>
                           (Inr (ApproximateDistanceBetweenStops util from_stop to_stop), tr3))))"

definition ValidateFromStopIdIsValid ::
  "'s util \<Rightarrow> 's Pathway \<Rightarrow> reporter \<Rightarrow> 's event list \<Rightarrow> (exn + bool) \<times> 's event list" where
  "ValidateFromStopIdIsValid util self problems tr =
     (let tr1 = tr @ [Enter ''ValidateFromStopIdIsValid'']
      in case p_schedule self of
           None \<Rightarrow> (Inl AttributeError, tr1)
         | Some sched \<Rightarrow>
            (let tr2 = tr1 @ [StopsKeys]
             in if stops sched (fld self ''from_stop_id'') = None
                then (Inr False, tr2 @ [Report problems
                        (InvalidValue ''from_stop_id'' (fld self ''from_stop_id'') None None)])
                else (Inr True, tr2)))"

definition ValidateToStopIdIsValid ::
  "'s util \<Rightarrow> 's Pathway \<Rightarrow> reporter \<Rightarrow> 's event list \<Rightarrow> (exn + bool) \<times> 's event list" where
  "ValidateToStopIdIsValid util self problems tr =
     (let tr1 = tr @ [Enter ''ValidateToStopIdIsValid'']
      in case p_schedule self of
           None \<Rightarrow> (Inl AttributeError, tr1)
         | Some sched \<Rightarrow>
            (let tr2 = tr1 @ [StopsKeys]
             in if stops sched (fld self ''to_stop_id'') = None
                then (Inr False, tr2 @ [Report problems
                        (InvalidValue ''to_stop_id'' (fld self ''to_stop_id'') None None)])
                else (Inr True, tr2)))"

definition ValidatePathwayDistance ::
  "'s util \<Rightarrow> 's Pathway \<Rightarrow> reporter \<Rightarrow> 's event list \<Rightarrow> (exn + unit) \<times> 's event list" where
  "ValidatePathwayDistance util self problems tr =
     (let tr1 = tr @ [Enter ''ValidatePathwayDistance'']
      in case GetPathwayDistance util self tr1 of
           (Inl e, tr2) \<Rightarrow> (Inl e, tr2)
         | (Inr distance, tr2) \<Rightarrow>
             if distance > 10000
             then (Inr (), tr2 @ [Report problems
                     (PathwayDistanceTooBig (fld self ''from_stop_id'') (fld self ''to_stop_id'')
                        distance None)])
             else if distance > 2000
             then (Inr (), tr2 @ [Report problems
                     (PathwayDistanceTooBig (fld self ''from_stop_id'') (fld self ''to_stop_id'')
                        distance (Some TYPE_WARNING))])
             else (Inr (), tr2))"

definition ValidatePathwayWalkingTime ::
  "'s util \<Rightarrow> 's Pathway \<Rightarrow> reporter \<Rightarrow> 's event list \<Rightarrow> (exn + unit) \<times> 's event list" where
  "ValidatePathwayWalkingTime util self problems tr =
     (let tr1 = tr @ [Enter ''ValidatePathwayWalkingTime'']
      in if IsEmpty util (fld self ''traversal_time'')
         then (Inr (), tr1)
         else
           (case py_lt (fld self ''traversal_time'') 0 of
              Inl e \<Rightarrow> (Inl e, tr1)
            | Inr True \<Rightarrow> (Inr (), tr1)
            | Inr False \<Rightarrow>
               (case GetPathwayDistance util self tr1 of
                  (Inl e, tr2) \<Rightarrow> (Inl e, tr2)
                | (Inr distance, tr2) \<Rightarrow>
                   (let FAST_WALKING_SPEED = 2;
                        tr3 = tr2 @ [WalkingSpeedCompare (fld self ''traversal_time'') distance]
                    in case py_add (fld self ''traversal_time'') 120 of
                         Inl e \<Rightarrow> (Inl e, tr3)
                       | Inr s \<Rightarrow>
                           if real_of_int s < distance / FAST_WALKING_SPEED
                           then (Inr (), tr3 @ [Report problems
                                   (PathwayWalkingSpeedTooFast
                                      (fld self ''from_stop_id'') (fld self ''to_stop_id'')
                                      (fld self ''traversal_time'') distance)])
                           else (Inr (), tr3)))))"

definition ValidateAfterAdd ::
  "'s util \<Rightarrow> 's Pathway \<Rightarrow> reporter \<Rightarrow> 's event list \<Rightarrow> (exn + unit) \<times> 's event list" where
  "ValidateAfterAdd util self problems tr =
     (let tr0 = tr @ [Enter ''ValidateAfterAdd''];
          valid_stop_ids0 = True
      in case ValidateFromStopIdIsValid util self problems tr0 of
           (Inl e, tr1) \<Rightarrow> (Inl e, tr1)
         | (Inr r1, tr1) \<Rightarrow>
            (let valid_stop_ids1 = (r1 \<and> valid_stop_ids0)
             in case ValidateToStopIdIsValid util self problems tr1 of
                  (Inl e, tr2) \<Rightarrow> (Inl e, tr2)
                | (Inr r2, tr2) \<Rightarrow>
                   (let valid_stop_ids2 = (r2 \<and> valid_stop_ids1)
                    in if valid_stop_ids2
                       then (case ValidatePathwayDistance util self problems tr2 of
                               (Inl e, tr3) \<Rightarrow> (Inl e, tr3)
                             | (Inr _, tr3) \<Rightarrow> ValidatePathwayWalkingTime util self problems tr3)
                       else (Inr (), tr2))))"

text \<open>
  \<open>Validate\<close>: the condition \<open>self._schedule\<close> is the truth value of the back-reference,
  false for \<open>None\<close> and true for a registry.
\<close>

definition Validate ::
  "'s util \<Rightarrow> 's Pathway \<Rightarrow> reporter \<Rightarrow> 's event list \<Rightarrow> (exn + unit) \<times> 's event list" where
  "Validate util self problems tr =
     (let tr0 = tr @ [Enter ''Validate''];
          (result, tr1) = ValidateBeforeAdd util self problems tr0
      in if result \<and> p_schedule self \<noteq> None
         then ValidateAfterAdd util self problems tr1
         else (Inr (), tr1))"

definition AddToSchedule ::
  "'s Pathway \<Rightarrow> 's Schedule \<Rightarrow> reporter \<Rightarrow> 's event list \<Rightarrow> 's event list" where
  "AddToSchedule self schedule problems tr =
     tr @ [Enter ''AddToSchedule'', AddPathwayObject schedule self (Some problems)]"

section \<open>Reading a trace\<close>

text \<open>The methods entered, the calls made on the reporter, the accesses to the stop
  collection, the registration calls and the operands of the walking-speed comparison,
  each in order of occurrence; and the events a call appended to the trace it was given.\<close>

fun entered :: "'s event list \<Rightarrow> string list" where
  "entered [] = []"
| "entered (Enter m # es) = m # entered es"
| "entered (_ # es) = entered es"

fun reported :: "'s event list \<Rightarrow> call list" where
  "reported [] = []"
| "reported (Report _ c # es) = c # reported es"
| "reported (_ # es) = reported es"

fun stop_accesses :: "'s event list \<Rightarrow> 's event list" where
  "stop_accesses [] = []"
| "stop_accesses (StopsKeys # es) = StopsKeys # stop_accesses es"
| "stop_accesses (StopsGet k # es) = StopsGet k # stop_accesses es"
| "stop_accesses (_ # es) = stop_accesses es"

fun registry_calls :: "'s event list \<Rightarrow> 's event list" where
  "registry_calls [] = []"
| "registry_calls (AddPathwayObject sched self r # es) =
     AddPathwayObject sched self r # registry_calls es"
| "registry_calls (_ # es) = registry_calls es"

fun compared :: "'s event list \<Rightarrow> (pyval \<times> real) list" where
  "compared [] = []"
| "compared (WalkingSpeedCompare v d # es) = (v, d) # compared es"
| "compared (_ # es) = compared es"

definition new_events :: "'s event list \<Rightarrow> 's event list \<Rightarrow> 's event list" where
  "new_events tr tr' = drop (length tr) tr'"

fun is_InvalidValue :: "call \<Rightarrow> bool" where
  "is_InvalidValue (InvalidValue _ _ _ _) = True"
| "is_InvalidValue _ = False"

text \<open>
  The value the attribute \<open>name\<close> holds after lines 32-40 of the constructor: taken from
  the field mapping when that is given and not empty (\<open>None\<close> when the mapping lacks the
  key), from the explicit argument otherwise.
\<close>

definition raw_field :: "string \<Rightarrow> pyval \<Rightarrow> (string \<times> pyval) list option \<Rightarrow> pyval" where
  "raw_field name arg field_dict =
     (if truthy_dict field_dict
      then (case map_of (rev (the field_dict)) name of None \<Rightarrow> PNone | Some v \<Rightarrow> v)
      else arg)"

text \<open>The field \<open>name\<close> of the record a construction returned.\<close>

definition result_field :: "string \<Rightarrow> exn + 's Pathway \<Rightarrow> exn + pyval" where
  "result_field name r = (case r of Inl e \<Rightarrow> Inl e | Inr self \<Rightarrow> Inr (fld self name))"

section \<open>The helpers of \<open>transitfeed.util\<close> at concrete inputs\<close>

text \<open>
  The functions above hold for every implementation of the three helpers. The concrete
  helpers below serve to run them on concrete inputs.
\<close>

definition is_space :: "char \<Rightarrow> bool" where
  "is_space c = (c \<in> set [CHR '' '', CHR 0x09, CHR 0x0A, CHR 0x0B, CHR 0x0C, CHR 0x0D])"

definition is_digit :: "char \<Rightarrow> bool" where
  "is_digit c = (c \<in> set ''0123456789'')"

text \<open>
  Modelled from the spec: \<open>util.IsEmpty\<close>, which is not part of \<open>pathway.py\<close>. The spec
  speaks of empty, blank and absent values: \<open>None\<close> and a string of nothing but white
  space are empty, an integer never is.
\<close>

definition IsEmpty_model :: "pyval \<Rightarrow> bool" where
  "IsEmpty_model v =
     (case v of PNone \<Rightarrow> True | PStr s \<Rightarrow> list_all is_space s | PInt _ \<Rightarrow> False)"

text \<open>
  Modelled from the spec: \<open>util.NonNegIntStringToInt\<close>, which is not part of
  \<open>pathway.py\<close>. Section 3 and 4.1 of the spec: a numeric string parses as a non-negative
  integer; a non-numeric or negative textual form fails. A string of decimal digits
  parses to its value, any other string raises \<open>ValueError\<close>, a value that is not a
  string raises \<open>TypeError\<close>.
\<close>

definition NonNegIntStringToInt_model :: "pyval \<Rightarrow> exn + int" where
  "NonNegIntStringToInt_model v =
     (case v of
        PStr s \<Rightarrow> if s \<noteq> [] \<and> list_all is_digit s
                  then Inr (fold (\<lambda>c n. 10 * n + (of_char c - 48)) s 0)
                  else Inl ValueError
      | _ \<Rightarrow> Inl TypeError)"

text \<open>
  Modelled from the spec: \<open>util.ApproximateDistanceBetweenStops\<close>, which is not part of
  \<open>pathway.py\<close>. Section 6 of the spec: it maps two stops to a distance in meters. The
  example stops lie on a straight line and are given by their position in meters.
\<close>

definition util_model :: "real util" where
  "util_model =
     \<lparr>IsEmpty = IsEmpty_model, NonNegIntStringToInt = NonNegIntStringToInt_model,
      ApproximateDistanceBetweenStops = (\<lambda>a b. \<bar>a - b\<bar>)\<rparr>"

definition example_schedule :: "real Schedule" where
  "example_schedule =
     \<lparr>stops = [PStr ''S0'' \<mapsto> 0, PStr ''S200'' \<mapsto> 200, PStr ''S500'' \<mapsto> 500,
               PStr ''S1500'' \<mapsto> 1500, PStr ''S3000'' \<mapsto> 3000, PStr ''S5001'' \<mapsto> 5001,
               PStr ''S10001'' \<mapsto> 10001]\<rparr>"

definition example_pathway ::
  "pyval \<Rightarrow> pyval \<Rightarrow> pyval \<Rightarrow> pyval \<Rightarrow> real Schedule option \<Rightarrow> real Pathway" where
  "example_pathway from_stop_id to_stop_id pathway_mode traversal_time sched =
     \<lparr>attrs = [''pathway_id'' \<mapsto> PStr ''P1'', ''from_stop_id'' \<mapsto> from_stop_id,
               ''to_stop_id'' \<mapsto> to_stop_id, ''pathway_mode'' \<mapsto> pathway_mode,
               ''traversal_time'' \<mapsto> traversal_time, ''is_bidirectional'' \<mapsto> PStr ''1''],
      p_schedule = sched\<rparr>"

section \<open>Basic facts\<close>

lemma entered_append [simp]: "entered (xs @ ys) = entered xs @ entered ys"
  by (induction xs rule: entered.induct) simp_all

lemma reported_append [simp]: "reported (xs @ ys) = reported xs @ reported ys"
  by (induction xs rule: reported.induct) simp_all

lemma stop_accesses_append [simp]:
  "stop_accesses (xs @ ys) = stop_accesses xs @ stop_accesses ys"
  by (induction xs rule: stop_accesses.induct) simp_all

lemma registry_calls_append [simp]:
  "registry_calls (xs @ ys) = registry_calls xs @ registry_calls ys"
  by (induction xs rule: registry_calls.induct) simp_all

lemma compared_append [simp]: "compared (xs @ ys) = compared xs @ compared ys"
  by (induction xs rule: compared.induct) simp_all

lemma new_events_append [simp]: "new_events tr (tr @ es) = es"
  by (simp add: new_events_def)

lemma example_pathway_simps [simp]:
  "fld (example_pathway f t m tt s) ''from_stop_id'' = f"
  "fld (example_pathway f t m tt s) ''to_stop_id'' = t"
  "fld (example_pathway f t m tt s) ''pathway_mode'' = m"
  "fld (example_pathway f t m tt s) ''traversal_time'' = tt"
  "p_schedule (example_pathway f t m tt s) = s"
  by (simp_all add: example_pathway_def fld_def)

lemma example_schedule_simps [simp]:
  "stops example_schedule (PStr ''S0'') = Some 0"
  "stops example_schedule (PStr ''S200'') = Some 200"
  "stops example_schedule (PStr ''S500'') = Some 500"
  "stops example_schedule (PStr ''S1500'') = Some 1500"
  "stops example_schedule (PStr ''S3000'') = Some 3000"
  "stops example_schedule (PStr ''S5001'') = Some 5001"
  "stops example_schedule (PStr ''S10001'') = Some 10001"
  by (simp_all add: example_schedule_def)

lemma util_model_simps [simp]:
  "IsEmpty util_model = IsEmpty_model"
  "NonNegIntStringToInt util_model = NonNegIntStringToInt_model"
  "ApproximateDistanceBetweenStops util_model a b = \<bar>a - b\<bar>"
  by (simp_all add: util_model_def)

section \<open>The distance check\<close>

lemma GetPathwayDistance_resolved:
  assumes "p_schedule self = Some sched"
    and "stops sched (fld self ''from_stop_id'') = Some a"
    and "stops sched (fld self ''to_stop_id'') = Some b"
  shows "GetPathwayDistance util self tr =
           (Inr (ApproximateDistanceBetweenStops util a b),
            tr @ [Enter ''GetPathwayDistance'', StopsGet (fld self ''from_stop_id''),
                  StopsGet (fld self ''to_stop_id'')])"
  using assms by (simp add: GetPathwayDistance_def)

lemma ValidatePathwayDistance_resolved:
  assumes "p_schedule self = Some sched"
    and "stops sched (fld self ''from_stop_id'') = Some a"
    and "stops sched (fld self ''to_stop_id'') = Some b"
  shows "ValidatePathwayDistance util self problems tr =
           (Inr (),
            tr @ [Enter ''ValidatePathwayDistance'', Enter ''GetPathwayDistance'',
                  StopsGet (fld self ''from_stop_id''), StopsGet (fld self ''to_stop_id'')]
               @ (if ApproximateDistanceBetweenStops util a b > 10000
                  then [Report problems (PathwayDistanceTooBig (fld self ''from_stop_id'')
                          (fld self ''to_stop_id'') (ApproximateDistanceBetweenStops util a b) None)]
                  else if ApproximateDistanceBetweenStops util a b > 2000
                  then [Report problems (PathwayDistanceTooBig (fld self ''from_stop_id'')
                          (fld self ''to_stop_id'') (ApproximateDistanceBetweenStops util a b)
                          (Some TYPE_WARNING))]
                  else []))"
  by (simp add: ValidatePathwayDistance_def GetPathwayDistance_resolved [OF assms])

text \<open>
  Claim C1, as the spec states it: for a record whose two stops resolve in the registry,
  stops 5001 m apart give \<open>PathwayDistanceTooBig\<close> at error severity. The code reports
  it at warning severity: 5001 is not above the error threshold 10000 of line 139, and is
  above the warning threshold 2000 of line 143.
\<close>

theorem distance_5001_is_warning_not_error:
  "reported (snd (ValidatePathwayDistance util_model
      (example_pathway (PStr ''S0'') (PStr ''S5001'') (PInt 2) PNone (Some example_schedule)) 0 []))
     = [PathwayDistanceTooBig (PStr ''S0'') (PStr ''S5001'') 5001 (Some TYPE_WARNING)]
   \<and> severity_of (PathwayDistanceTooBig (PStr ''S0'') (PStr ''S5001'') 5001 (Some TYPE_WARNING))
       \<noteq> TYPE_ERROR"
  by (simp add: ValidatePathwayDistance_def GetPathwayDistance_def)

text \<open>
  Claim C1, amended: for a record whose two referenced stops resolve in the registry,
  with the stops 5001 m apart \<open>ValidatePathwayDistance\<close> reports \<open>PathwayDistanceTooBig\<close>
  at warning severity; with the stops 3000 m apart it reports it at warning severity;
  with the stops 1500 m apart it reports no distance problem.
\<close>

theorem ValidatePathwayDistance_examples:
  assumes "p_schedule self = Some sched"
    and "stops sched (fld self ''from_stop_id'') = Some a"
    and "stops sched (fld self ''to_stop_id'') = Some b"
    and "d = ApproximateDistanceBetweenStops util a b"
  shows "(d = 5001 \<longrightarrow>
            reported (new_events tr (snd (ValidatePathwayDistance util self problems tr))) =
              [PathwayDistanceTooBig (fld self ''from_stop_id'') (fld self ''to_stop_id'') 5001
                 (Some TYPE_WARNING)])
       \<and> (d = 3000 \<longrightarrow>
            reported (new_events tr (snd (ValidatePathwayDistance util self problems tr))) =
              [PathwayDistanceTooBig (fld self ''from_stop_id'') (fld self ''to_stop_id'') 3000
                 (Some TYPE_WARNING)])
       \<and> (d = 1500 \<longrightarrow>
            reported (new_events tr (snd (ValidatePathwayDistance util self problems tr))) = [])
       \<and> severity_of (PathwayDistanceTooBig (fld self ''from_stop_id'') (fld self ''to_stop_id'') d
            (Some TYPE_WARNING)) = TYPE_WARNING"
  using assms(4) by (simp add: ValidatePathwayDistance_resolved [OF assms(1-3)])

theorem ValidatePathwayDistance_examples_witness:
  "reported (new_events [] (snd (ValidatePathwayDistance util_model
      (example_pathway (PStr ''S0'') (PStr ''S5001'') (PInt 2) PNone (Some example_schedule)) 0 [])))
     = [PathwayDistanceTooBig (PStr ''S0'') (PStr ''S5001'') 5001 (Some TYPE_WARNING)]
   \<and> reported (new_events [] (snd (ValidatePathwayDistance util_model
      (example_pathway (PStr ''S0'') (PStr ''S3000'') (PInt 2) PNone (Some example_schedule)) 0 [])))
     = [PathwayDistanceTooBig (PStr ''S0'') (PStr ''S3000'') 3000 (Some TYPE_WARNING)]
   \<and> reported (new_events [] (snd (ValidatePathwayDistance util_model
      (example_pathway (PStr ''S0'') (PStr ''S1500'') (PInt 2) PNone (Some example_schedule)) 0 [])))
     = []"
proof -
  have s: "p_schedule (example_pathway f t (PInt 2) PNone (Some example_schedule))
             = Some example_schedule" for f t
    by simp
  have "(5001::real) = ApproximateDistanceBetweenStops util_model 0 5001"
    and "(3000::real) = ApproximateDistanceBetweenStops util_model 0 3000"
    and "(1500::real) = ApproximateDistanceBetweenStops util_model 0 1500"
    by simp_all
  then show ?thesis
    using ValidatePathwayDistance_examples [OF s, of "PStr ''S0''" "PStr ''S5001''" 0 5001 5001 util_model "[]" 0]
      ValidatePathwayDistance_examples [OF s, of "PStr ''S0''" "PStr ''S3000''" 0 3000 3000 util_model "[]" 0]
      ValidatePathwayDistance_examples [OF s, of "PStr ''S0''" "PStr ''S1500''" 0 1500 1500 util_model "[]" 0]
    by simp
qed

text \<open>
  Claim C2: for every record whose two referenced stops resolve, the check returns and
  reports by exactly one branch on the computed distance \<open>d\<close>: above 10000 one
  \<open>PathwayDistanceTooBig\<close> at error severity; otherwise above 2000 one at warning
  severity; otherwise nothing. Both comparisons are strict.
\<close>

theorem ValidatePathwayDistance_thresholds:
  assumes "p_schedule self = Some sched"
    and "stops sched (fld self ''from_stop_id'') = Some a"
    and "stops sched (fld self ''to_stop_id'') = Some b"
    and "d = ApproximateDistanceBetweenStops util a b"
  shows "fst (ValidatePathwayDistance util self problems tr) = Inr ()
       \<and> reported (new_events tr (snd (ValidatePathwayDistance util self problems tr))) =
           (if d > 10000
            then [PathwayDistanceTooBig (fld self ''from_stop_id'') (fld self ''to_stop_id'') d None]
            else if d > 2000
            then [PathwayDistanceTooBig (fld self ''from_stop_id'') (fld self ''to_stop_id'') d
                    (Some TYPE_WARNING)]
            else [])
       \<and> map severity_of
            (reported (new_events tr (snd (ValidatePathwayDistance util self problems tr)))) =
           (if d > 10000 then [TYPE_ERROR] else if d > 2000 then [TYPE_WARNING] else [])"
  using assms(4) by (simp add: ValidatePathwayDistance_resolved [OF assms(1-3)])

theorem ValidatePathwayDistance_thresholds_witness:
  "map severity_of (reported (new_events []
      (snd (ValidatePathwayDistance util_model
              (example_pathway (PStr ''S0'') (PStr ''S10001'') (PInt 2) PNone (Some example_schedule))
              0 [])))) = [TYPE_ERROR]
   \<and> map severity_of (reported (new_events []
      (snd (ValidatePathwayDistance util_model
              (example_pathway (PStr ''S0'') (PStr ''S3000'') (PInt 2) PNone (Some example_schedule))
              0 [])))) = [TYPE_WARNING]"
proof -
  have s: "p_schedule (example_pathway f t (PInt 2) PNone (Some example_schedule))
             = Some example_schedule" for f t
    by simp
  have "(10001::real) = ApproximateDistanceBetweenStops util_model 0 10001"
    and "(3000::real) = ApproximateDistanceBetweenStops util_model 0 3000"
    by simp_all
  then show ?thesis
    using ValidatePathwayDistance_thresholds [OF s, of "PStr ''S0''" "PStr ''S10001''" 0 10001 10001 util_model 0 "[]"]
      ValidatePathwayDistance_thresholds [OF s, of "PStr ''S0''" "PStr ''S3000''" 0 3000 3000 util_model 0 "[]"]
    by simp
qed

section \<open>The walking-time check\<close>

lemma ValidatePathwayWalkingTime_skipped:
  assumes "IsEmpty util (fld self ''traversal_time'')
           \<or> (\<exists>t. fld self ''traversal_time'' = PInt t \<and> t < 0)"
  shows "ValidatePathwayWalkingTime util self problems tr =
           (Inr (), tr @ [Enter ''ValidatePathwayWalkingTime''])"
  using assms by (auto simp add: ValidatePathwayWalkingTime_def Let_def py_lt_def)

lemma ValidatePathwayWalkingTime_resolved:
  assumes "p_schedule self = Some sched"
    and "stops sched (fld self ''from_stop_id'') = Some a"
    and "stops sched (fld self ''to_stop_id'') = Some b"
    and "fld self ''traversal_time'' = PInt t" and "0 \<le> t" and "\<not> IsEmpty util (PInt t)"
  shows "ValidatePathwayWalkingTime util self problems tr =
           (Inr (),
            tr @ [Enter ''ValidatePathwayWalkingTime'', Enter ''GetPathwayDistance'',
                  StopsGet (fld self ''from_stop_id''), StopsGet (fld self ''to_stop_id''),
                  WalkingSpeedCompare (PInt t) (ApproximateDistanceBetweenStops util a b)]
               @ (if real_of_int (t + 120) < ApproximateDistanceBetweenStops util a b / 2
                  then [Report problems (PathwayWalkingSpeedTooFast (fld self ''from_stop_id'')
                          (fld self ''to_stop_id'') (PInt t)
                          (ApproximateDistanceBetweenStops util a b))]
                  else []))"
  using assms(4-6)
  by (simp add: ValidatePathwayWalkingTime_def Let_def py_lt_def py_add_def
      GetPathwayDistance_resolved [OF assms(1-3)])

text \<open>
  Claim C3: \<open>ValidatePathwayWalkingTime\<close> reports nothing when \<open>traversal_time\<close> is
  empty or a negative integer. Otherwise, for a non-negative integer \<open>traversal_time\<close>
  \<open>t\<close> and stops that resolve to the computed distance \<open>d\<close>, it reports one
  \<open>PathwayWalkingSpeedTooFast\<close> (a warning) carrying \<open>from_stop_id\<close>, \<open>to_stop_id\<close>,
  \<open>t\<close> and \<open>d\<close> exactly when \<open>t + 120 < d / 2\<close>; so for \<open>d \<le> 240\<close> it reports nothing.
\<close>

theorem ValidatePathwayWalkingTime_rule:
  "(IsEmpty util (fld self ''traversal_time'')
      \<or> (\<exists>t. fld self ''traversal_time'' = PInt t \<and> t < 0)
    \<longrightarrow> fst (ValidatePathwayWalkingTime util self problems tr) = Inr ()
      \<and> reported (new_events tr (snd (ValidatePathwayWalkingTime util self problems tr))) = [])
   \<and> (p_schedule self = Some sched
      \<and> stops sched (fld self ''from_stop_id'') = Some a
      \<and> stops sched (fld self ''to_stop_id'') = Some b
      \<and> d = ApproximateDistanceBetweenStops util a b
      \<and> fld self ''traversal_time'' = PInt t \<and> 0 \<le> t \<and> \<not> IsEmpty util (PInt t)
    \<longrightarrow> fst (ValidatePathwayWalkingTime util self problems tr) = Inr ()
      \<and> reported (new_events tr (snd (ValidatePathwayWalkingTime util self problems tr))) =
          (if real_of_int t + 120 < d / 2
           then [PathwayWalkingSpeedTooFast (fld self ''from_stop_id'') (fld self ''to_stop_id'')
                   (PInt t) d]
           else [])
      \<and> severity_of (PathwayWalkingSpeedTooFast (fld self ''from_stop_id'')
            (fld self ''to_stop_id'') (PInt t) d) = TYPE_WARNING
      \<and> (d \<le> 240 \<longrightarrow>
           reported (new_events tr (snd (ValidatePathwayWalkingTime util self problems tr))) = []))"
proof (intro conjI impI)
  assume "IsEmpty util (fld self ''traversal_time'')
      \<or> (\<exists>t. fld self ''traversal_time'' = PInt t \<and> t < 0)"
  note skip = ValidatePathwayWalkingTime_skipped [OF this]
  show "fst (ValidatePathwayWalkingTime util self problems tr) = Inr ()"
    by (simp add: skip)
  show "reported (new_events tr (snd (ValidatePathwayWalkingTime util self problems tr))) = []"
    by (simp add: skip)
next
  assume h: "p_schedule self = Some sched
      \<and> stops sched (fld self ''from_stop_id'') = Some a
      \<and> stops sched (fld self ''to_stop_id'') = Some b
      \<and> d = ApproximateDistanceBetweenStops util a b
      \<and> fld self ''traversal_time'' = PInt t \<and> 0 \<le> t \<and> \<not> IsEmpty util (PInt t)"
  then have run: "ValidatePathwayWalkingTime util self problems tr =
           (Inr (),
            tr @ [Enter ''ValidatePathwayWalkingTime'', Enter ''GetPathwayDistance'',
                  StopsGet (fld self ''from_stop_id''), StopsGet (fld self ''to_stop_id''),
                  WalkingSpeedCompare (PInt t) d]
               @ (if real_of_int (t + 120) < d / 2
                  then [Report problems (PathwayWalkingSpeedTooFast (fld self ''from_stop_id'')
                          (fld self ''to_stop_id'') (PInt t) d)]
                  else []))"
    using ValidatePathwayWalkingTime_resolved [of self sched a b t util problems tr] by simp
  show "fst (ValidatePathwayWalkingTime util self problems tr) = Inr ()"
    by (simp add: run)
  show "reported (new_events tr (snd (ValidatePathwayWalkingTime util self problems tr))) =
          (if real_of_int t + 120 < d / 2
           then [PathwayWalkingSpeedTooFast (fld self ''from_stop_id'') (fld self ''to_stop_id'')
                   (PInt t) d]
           else [])"
    by (simp add: run)
  show "severity_of (PathwayWalkingSpeedTooFast (fld self ''from_stop_id'')
            (fld self ''to_stop_id'') (PInt t) d) = TYPE_WARNING"
    by simp
  show "reported (new_events tr (snd (ValidatePathwayWalkingTime util self problems tr))) = []"
    if "d \<le> 240"
    using that h by (simp add: run)
qed

theorem ValidatePathwayWalkingTime_rule_witness:
  "reported (new_events [] (snd (ValidatePathwayWalkingTime util_model
      (example_pathway (PStr ''S0'') (PStr ''S500'') (PInt 2) (PInt 100) (Some example_schedule))
      0 []))) =
     [PathwayWalkingSpeedTooFast (PStr ''S0'') (PStr ''S500'') (PInt 100) 500]
   \<and> reported (new_events [] (snd (ValidatePathwayWalkingTime util_model
      (example_pathway (PStr ''S0'') (PStr ''S200'') (PInt 2) (PInt 0) (Some example_schedule))
      0 []))) = []
   \<and> reported (new_events [] (snd (ValidatePathwayWalkingTime util_model
      (example_pathway (PStr ''S0'') (PStr ''S500'') (PInt 2) (PInt (- 5)) (Some example_schedule))
      0 []))) = []"
  using ValidatePathwayWalkingTime_rule
      [of util_model "example_pathway (PStr ''S0'') (PStr ''S500'') (PInt 2) (PInt 100) (Some example_schedule)"
          0 "[]" example_schedule 0 500 500 100]
    ValidatePathwayWalkingTime_rule
      [of util_model "example_pathway (PStr ''S0'') (PStr ''S200'') (PInt 2) (PInt 0) (Some example_schedule)"
          0 "[]" example_schedule 0 200 200 0]
    ValidatePathwayWalkingTime_rule
      [of util_model "example_pathway (PStr ''S0'') (PStr ''S500'') (PInt 2) (PInt (- 5)) (Some example_schedule)"
          0 "[]" example_schedule 0 500 500 "- 5"]
  by (simp add: IsEmpty_model_def)

section \<open>The checks before registration\<close>

lemma ValidateMinimumPathwayTime_int:
  assumes "fld self ''traversal_time'' = PInt t" and "\<not> IsEmpty util (PInt t)"
  shows "ValidateMinimumPathwayTime util self problems tr =
           (True,
            tr @ [Enter ''ValidateMinimumPathwayTime'']
               @ (if fld self ''pathway_mode'' \<noteq> PInt 2
                  then [Report problems
                          (MinimumPathwayTimeSetWithInvalidPathwayMode (fld self ''pathway_mode''))]
                  else [])
               @ (if t < 0
                  then [Report problems (InvalidValue ''traversal_time'' (PInt t)
                          (Some ''This field cannot contain a negative value.'') None)]
                  else if t \<ge> 24 * 3600
                  then [Report problems (InvalidValue ''traversal_time'' (PInt t)
                          (Some ''The value is very large for a transfer time and most likely indicates an error.'')
                          None)]
                  else if t \<ge> 3 * 3600
                  then [Report problems (InvalidValue ''traversal_time'' (PInt t)
                          (Some ''The value is large for a transfer time and most likely indicates an error.'')
                          (Some TYPE_WARNING))]
                  else []))"
  using assms by (simp add: ValidateMinimumPathwayTime_def Let_def)

lemma ValidateMinimumPathwayTime_result:
  "fst (ValidateMinimumPathwayTime util self problems tr) =
     (IsEmpty util (fld self ''traversal_time'') \<or> isinstance_int (fld self ''traversal_time''))"
  by (simp add: ValidateMinimumPathwayTime_def Let_def isinstance_int_def split: pyval.splits)

text \<open>
  Claim C4: for every record with a non-empty integer \<open>traversal_time\<close> \<open>t\<close>,
  \<open>ValidateMinimumPathwayTime\<close> reports \<open>InvalidValue\<close> at error severity when \<open>t < 0\<close>
  and when \<open>t \<ge> 24 * 3600\<close>, at warning severity when \<open>3 * 3600 \<le> t < 24 * 3600\<close>, and
  no time-range problem when \<open>0 \<le> t < 3 * 3600\<close>; in all these cases it returns success.
  It returns failure only when a non-empty \<open>traversal_time\<close> is not an integer.
\<close>

theorem ValidateMinimumPathwayTime_ranges:
  "(fld self ''traversal_time'' = PInt t \<and> \<not> IsEmpty util (PInt t)
    \<longrightarrow> fst (ValidateMinimumPathwayTime util self problems tr) = True
      \<and> filter is_InvalidValue
          (reported (new_events tr (snd (ValidateMinimumPathwayTime util self problems tr)))) =
          (if t < 0
           then [InvalidValue ''traversal_time'' (PInt t)
                   (Some ''This field cannot contain a negative value.'') None]
           else if t \<ge> 24 * 3600
           then [InvalidValue ''traversal_time'' (PInt t)
                   (Some ''The value is very large for a transfer time and most likely indicates an error.'')
                   None]
           else if t \<ge> 3 * 3600
           then [InvalidValue ''traversal_time'' (PInt t)
                   (Some ''The value is large for a transfer time and most likely indicates an error.'')
                   (Some TYPE_WARNING)]
           else [])
      \<and> map severity_of (filter is_InvalidValue
          (reported (new_events tr (snd (ValidateMinimumPathwayTime util self problems tr))))) =
          (if t < 0 then [TYPE_ERROR]
           else if t \<ge> 24 * 3600 then [TYPE_ERROR]
           else if t \<ge> 3 * 3600 then [TYPE_WARNING]
           else []))
   \<and> (fst (ValidateMinimumPathwayTime util self problems tr) = False
      \<longleftrightarrow> \<not> IsEmpty util (fld self ''traversal_time'')
          \<and> \<not> isinstance_int (fld self ''traversal_time''))"
proof (intro conjI impI)
  assume h: "fld self ''traversal_time'' = PInt t \<and> \<not> IsEmpty util (PInt t)"
  note run = ValidateMinimumPathwayTime_int [of self t util problems tr]
  show "fst (ValidateMinimumPathwayTime util self problems tr) = True"
    using h by (simp add: run)
  show "filter is_InvalidValue
          (reported (new_events tr (snd (ValidateMinimumPathwayTime util self problems tr)))) =
          (if t < 0
           then [InvalidValue ''traversal_time'' (PInt t)
                   (Some ''This field cannot contain a negative value.'') None]
           else if t \<ge> 24 * 3600
           then [InvalidValue ''traversal_time'' (PInt t)
                   (Some ''The value is very large for a transfer time and most likely indicates an error.'')
                   None]
           else if t \<ge> 3 * 3600
           then [InvalidValue ''traversal_time'' (PInt t)
                   (Some ''The value is large for a transfer time and most likely indicates an error.'')
                   (Some TYPE_WARNING)]
           else [])"
    using h by (simp add: run)
  then show "map severity_of (filter is_InvalidValue
          (reported (new_events tr (snd (ValidateMinimumPathwayTime util self problems tr))))) =
          (if t < 0 then [TYPE_ERROR]
           else if t \<ge> 24 * 3600 then [TYPE_ERROR]
           else if t \<ge> 3 * 3600 then [TYPE_WARNING]
           else [])"
    by simp
next
  show "fst (ValidateMinimumPathwayTime util self problems tr) = False
      \<longleftrightarrow> \<not> IsEmpty util (fld self ''traversal_time'')
          \<and> \<not> isinstance_int (fld self ''traversal_time'')"
    by (simp add: ValidateMinimumPathwayTime_result)
qed

theorem ValidateMinimumPathwayTime_ranges_witness:
  "ValidateMinimumPathwayTime util_model
      (example_pathway (PStr ''S0'') (PStr ''S200'') (PInt 2) (PInt (- 5)) None) 0 [] =
     (True, [Enter ''ValidateMinimumPathwayTime'',
             Report 0 (InvalidValue ''traversal_time'' (PInt (- 5))
                (Some ''This field cannot contain a negative value.'') None)])
   \<and> map severity_of (filter is_InvalidValue (reported (new_events []
        (snd (ValidateMinimumPathwayTime util_model
           (example_pathway (PStr ''S0'') (PStr ''S200'') (PInt 2) (PInt (- 5)) None) 0 []))))) =
       [TYPE_ERROR]
   \<and> map severity_of (filter is_InvalidValue (reported (new_events []
        (snd (ValidateMinimumPathwayTime util_model
           (example_pathway (PStr ''S0'') (PStr ''S200'') (PInt 2) (PInt 86400) None) 0 []))))) =
       [TYPE_ERROR]
   \<and> map severity_of (filter is_InvalidValue (reported (new_events []
        (snd (ValidateMinimumPathwayTime util_model
           (example_pathway (PStr ''S0'') (PStr ''S200'') (PInt 2) (PInt 10800) None) 0 []))))) =
       [TYPE_WARNING]
   \<and> map severity_of (filter is_InvalidValue (reported (new_events []
        (snd (ValidateMinimumPathwayTime util_model
           (example_pathway (PStr ''S0'') (PStr ''S200'') (PInt 2) (PInt 10799) None) 0 []))))) =
       []
   \<and> fst (ValidateMinimumPathwayTime util_model
        (example_pathway (PStr ''S0'') (PStr ''S200'') (PInt 2) (PStr ''soon'') None) 0 []) = False"
  using ValidateMinimumPathwayTime_ranges
      [of "example_pathway (PStr ''S0'') (PStr ''S200'') (PInt 2) (PInt (- 5)) None" "- 5" util_model 0 "[]"]
    ValidateMinimumPathwayTime_ranges
      [of "example_pathway (PStr ''S0'') (PStr ''S200'') (PInt 2) (PInt 86400) None" 86400 util_model 0 "[]"]
    ValidateMinimumPathwayTime_ranges
      [of "example_pathway (PStr ''S0'') (PStr ''S200'') (PInt 2) (PInt 10800) None" 10800 util_model 0 "[]"]
    ValidateMinimumPathwayTime_ranges
      [of "example_pathway (PStr ''S0'') (PStr ''S200'') (PInt 2) (PInt 10799) None" 10799 util_model 0 "[]"]
    ValidateMinimumPathwayTime_ranges
      [of "example_pathway (PStr ''S0'') (PStr ''S200'') (PInt 2) (PStr ''soon'') None" 0 util_model 0 "[]"]
  by (simp add: IsEmpty_model_def isinstance_int_def is_space_def
      ValidateMinimumPathwayTime_def)

section \<open>All checks before registration\<close>

lemma ValidateFromStopIdIsPresent_trace:
  "ValidateFromStopIdIsPresent util self problems tr =
     (\<not> IsEmpty util (fld self ''from_stop_id''),
      tr @ Enter ''ValidateFromStopIdIsPresent'' #
        (if IsEmpty util (fld self ''from_stop_id'')
         then [Report problems (MissingValue ''from_stop_id'')] else []))"
  by (simp add: ValidateFromStopIdIsPresent_def)

lemma ValidateToStopIdIsPresent_trace:
  "ValidateToStopIdIsPresent util self problems tr =
     (\<not> IsEmpty util (fld self ''to_stop_id''),
      tr @ Enter ''ValidateToStopIdIsPresent'' #
        (if IsEmpty util (fld self ''to_stop_id'')
         then [Report problems (MissingValue ''to_stop_id'')] else []))"
  by (simp add: ValidateToStopIdIsPresent_def)

lemma ValidatePathwayMode_trace:
  "ValidatePathwayMode util self problems tr =
     (IsEmpty util (fld self ''pathway_mode'') \<or> in_range (fld self ''pathway_mode'') 1 8,
      tr @ Enter ''ValidatePathwayMode'' #
        (if IsEmpty util (fld self ''pathway_mode'') \<or> in_range (fld self ''pathway_mode'') 1 8
         then []
         else [Report problems (InvalidValue ''pathway_mode'' (fld self ''pathway_mode'') None None)]))"
  by (cases "fld self ''pathway_mode''")
     (simp_all add: ValidatePathwayMode_def Let_def isinstance_int_def in_range_def)

lemma ValidateMinimumPathwayTime_ext:
  "NO_MATCH [] tr \<Longrightarrow> ValidateMinimumPathwayTime util self problems tr =
     (fst (ValidateMinimumPathwayTime util self problems []),
      tr @ snd (ValidateMinimumPathwayTime util self problems []))"
  by (simp add: ValidateMinimumPathwayTime_def Let_def split: pyval.splits)

lemma ValidateMinimumPathwayTime_events:
  "entered (snd (ValidateMinimumPathwayTime util self problems [])) = [''ValidateMinimumPathwayTime'']"
  "stop_accesses (snd (ValidateMinimumPathwayTime util self problems [])) = []"
  "compared (snd (ValidateMinimumPathwayTime util self problems [])) = []"
  by (simp_all add: ValidateMinimumPathwayTime_def Let_def split: pyval.splits)

lemma ValidateBeforeAdd_trace:
  "ValidateBeforeAdd util self problems tr =
     (fst (ValidateFromStopIdIsPresent util self problems [])
        \<and> fst (ValidateToStopIdIsPresent util self problems [])
        \<and> fst (ValidatePathwayMode util self problems [])
        \<and> fst (ValidateMinimumPathwayTime util self problems []),
      tr @ Enter ''ValidateBeforeAdd'' #
        snd (ValidateFromStopIdIsPresent util self problems [])
        @ snd (ValidateToStopIdIsPresent util self problems [])
        @ snd (ValidatePathwayMode util self problems [])
        @ snd (ValidateMinimumPathwayTime util self problems []))"
  unfolding ValidateBeforeAdd_def Let_def ValidateFromStopIdIsPresent_trace
    ValidateToStopIdIsPresent_trace ValidatePathwayMode_trace
  by (simp add: ValidateMinimumPathwayTime_ext split_beta) blast

lemma ValidateBeforeAdd_events:
  "entered (new_events tr (snd (ValidateBeforeAdd util self problems tr))) =
     [''ValidateBeforeAdd'', ''ValidateFromStopIdIsPresent'', ''ValidateToStopIdIsPresent'',
      ''ValidatePathwayMode'', ''ValidateMinimumPathwayTime'']"
  "stop_accesses (new_events tr (snd (ValidateBeforeAdd util self problems tr))) = []"
  "compared (new_events tr (snd (ValidateBeforeAdd util self problems tr))) = []"
  by (simp_all add: ValidateBeforeAdd_trace ValidateMinimumPathwayTime_events
      ValidateFromStopIdIsPresent_trace ValidateToStopIdIsPresent_trace ValidatePathwayMode_trace)

text \<open>
  Claim C5: for every record and reporter, \<open>ValidateBeforeAdd\<close> enters all four checks
  (\<open>from_stop_id\<close> presence, \<open>to_stop_id\<close> presence, \<open>pathway_mode\<close> range, minimum pathway
  time) on every call, in this order, whatever the earlier checks returned: the reporter
  receives what each check reports, one after the other, and the result is the logical
  AND of the four individual results.
\<close>

theorem ValidateBeforeAdd_runs_all_checks:
  "entered (new_events tr (snd (ValidateBeforeAdd util self problems tr))) =
     [''ValidateBeforeAdd'', ''ValidateFromStopIdIsPresent'', ''ValidateToStopIdIsPresent'',
      ''ValidatePathwayMode'', ''ValidateMinimumPathwayTime'']
   \<and> fst (ValidateBeforeAdd util self problems tr) =
       (fst (ValidateFromStopIdIsPresent util self problems tr1)
        \<and> fst (ValidateToStopIdIsPresent util self problems tr2)
        \<and> fst (ValidatePathwayMode util self problems tr3)
        \<and> fst (ValidateMinimumPathwayTime util self problems tr4))
   \<and> reported (new_events tr (snd (ValidateBeforeAdd util self problems tr))) =
       reported (new_events tr1 (snd (ValidateFromStopIdIsPresent util self problems tr1)))
       @ reported (new_events tr2 (snd (ValidateToStopIdIsPresent util self problems tr2)))
       @ reported (new_events tr3 (snd (ValidatePathwayMode util self problems tr3)))
       @ reported (new_events tr4 (snd (ValidateMinimumPathwayTime util self problems tr4)))"
proof (intro conjI)
  show "entered (new_events tr (snd (ValidateBeforeAdd util self problems tr))) =
     [''ValidateBeforeAdd'', ''ValidateFromStopIdIsPresent'', ''ValidateToStopIdIsPresent'',
      ''ValidatePathwayMode'', ''ValidateMinimumPathwayTime'']"
    by (rule ValidateBeforeAdd_events)
next
  have r4: "fst (ValidateMinimumPathwayTime util self problems tr4) =
      fst (ValidateMinimumPathwayTime util self problems [])"
    by (simp add: ValidateMinimumPathwayTime_result)
  show "fst (ValidateBeforeAdd util self problems tr) =
       (fst (ValidateFromStopIdIsPresent util self problems tr1)
        \<and> fst (ValidateToStopIdIsPresent util self problems tr2)
        \<and> fst (ValidatePathwayMode util self problems tr3)
        \<and> fst (ValidateMinimumPathwayTime util self problems tr4))"
    unfolding r4
    by (simp add: ValidateBeforeAdd_trace ValidateFromStopIdIsPresent_trace
        ValidateToStopIdIsPresent_trace ValidatePathwayMode_trace)
next
  have e4: "new_events tr4 (snd (ValidateMinimumPathwayTime util self problems tr4)) =
      snd (ValidateMinimumPathwayTime util self problems [])"
    by (cases tr4) (simp_all add: ValidateMinimumPathwayTime_ext new_events_def)
  show "reported (new_events tr (snd (ValidateBeforeAdd util self problems tr))) =
       reported (new_events tr1 (snd (ValidateFromStopIdIsPresent util self problems tr1)))
       @ reported (new_events tr2 (snd (ValidateToStopIdIsPresent util self problems tr2)))
       @ reported (new_events tr3 (snd (ValidatePathwayMode util self problems tr3)))
       @ reported (new_events tr4 (snd (ValidateMinimumPathwayTime util self problems tr4)))"
    unfolding e4
    by (simp add: ValidateBeforeAdd_trace ValidateFromStopIdIsPresent_trace
        ValidateToStopIdIsPresent_trace ValidatePathwayMode_trace)
qed

theorem ValidateBeforeAdd_runs_all_checks_witness:
  "entered (new_events []
      (snd (ValidateBeforeAdd util_model
              (example_pathway PNone PNone (PInt 9) (PStr ''soon'') None) 0 []))) =
     [''ValidateBeforeAdd'', ''ValidateFromStopIdIsPresent'', ''ValidateToStopIdIsPresent'',
      ''ValidatePathwayMode'', ''ValidateMinimumPathwayTime'']
   \<and> fst (ValidateBeforeAdd util_model
              (example_pathway PNone PNone (PInt 9) (PStr ''soon'') None) 0 []) = False
   \<and> reported (new_events []
      (snd (ValidateBeforeAdd util_model
              (example_pathway PNone PNone (PInt 9) (PStr ''soon'') None) 0 []))) =
     [MissingValue ''from_stop_id'', MissingValue ''to_stop_id'',
      InvalidValue ''pathway_mode'' (PInt 9) None None,
      MinimumPathwayTimeSetWithInvalidPathwayMode (PInt 9),
      InvalidValue ''traversal_time'' (PStr ''soon'')
        (Some ''If present, this field should contain an integer value.'') None]"
  using ValidateBeforeAdd_runs_all_checks
      [of "[]" util_model "example_pathway PNone PNone (PInt 9) (PStr ''soon'') None" 0
          "[]" "[]" "[]" "[]"]
  by (simp add: ValidateFromStopIdIsPresent_def ValidateToStopIdIsPresent_def
      ValidatePathwayMode_def ValidateMinimumPathwayTime_def Let_def
      IsEmpty_model_def is_space_def isinstance_int_def in_range_def new_events_def)

section \<open>The checks after registration\<close>

lemma ValidateFromStopIdIsValid_attached:
  assumes "p_schedule self = Some sched"
  shows "ValidateFromStopIdIsValid util self problems tr =
           (Inr (stops sched (fld self ''from_stop_id'') \<noteq> None),
            tr @ Enter ''ValidateFromStopIdIsValid'' # StopsKeys #
              (if stops sched (fld self ''from_stop_id'') = None
               then [Report problems
                       (InvalidValue ''from_stop_id'' (fld self ''from_stop_id'') None None)]
               else []))"
  using assms by (auto simp add: ValidateFromStopIdIsValid_def Let_def)

lemma ValidateToStopIdIsValid_attached:
  assumes "p_schedule self = Some sched"
  shows "ValidateToStopIdIsValid util self problems tr =
           (Inr (stops sched (fld self ''to_stop_id'') \<noteq> None),
            tr @ Enter ''ValidateToStopIdIsValid'' # StopsKeys #
              (if stops sched (fld self ''to_stop_id'') = None
               then [Report problems
                       (InvalidValue ''to_stop_id'' (fld self ''to_stop_id'') None None)]
               else []))"
  using assms by (auto simp add: ValidateToStopIdIsValid_def Let_def)

text \<open>What the walking-time check does once both stops resolve, for any \<open>traversal_time\<close>.\<close>

lemma ValidatePathwayWalkingTime_cases:
  assumes "p_schedule self = Some sched"
    and "stops sched (fld self ''from_stop_id'') = Some a"
    and "stops sched (fld self ''to_stop_id'') = Some b"
  shows "\<exists>es. ValidatePathwayWalkingTime util self problems tr =
           (if IsEmpty util (fld self ''traversal_time'') \<or> isinstance_int (fld self ''traversal_time'')
            then Inr () else Inl TypeError,
            tr @ Enter ''ValidatePathwayWalkingTime'' # es)
         \<and> ''ValidateAfterAdd'' \<notin> set (entered es)
         \<and> compared es =
             (if \<not> IsEmpty util (fld self ''traversal_time'') \<and> nonneg_int (fld self ''traversal_time'')
              then [(fld self ''traversal_time'', ApproximateDistanceBetweenStops util a b)]
              else [])"
proof (cases "IsEmpty util (fld self ''traversal_time'')")
  case True
  then show ?thesis
    by (simp add: ValidatePathwayWalkingTime_def Let_def)
next
  case False
  show ?thesis
  proof (cases "fld self ''traversal_time''")
    case (PInt t)
    with False show ?thesis
      by (simp add: ValidatePathwayWalkingTime_def Let_def py_lt_def py_add_def
          isinstance_int_def nonneg_int_def GetPathwayDistance_resolved [OF assms])
  qed (use False in \<open>simp_all add: ValidatePathwayWalkingTime_def Let_def py_lt_def
        isinstance_int_def nonneg_int_def\<close>)
qed


lemma ValidateAfterAdd_unresolved:
  assumes "p_schedule self = Some sched"
    and "stops sched (fld self ''from_stop_id'') = None \<or> stops sched (fld self ''to_stop_id'') = None"
  shows "ValidateAfterAdd util self problems tr =
           (Inr (),
            tr @ [Enter ''ValidateAfterAdd'', Enter ''ValidateFromStopIdIsValid'', StopsKeys]
               @ (if stops sched (fld self ''from_stop_id'') = None
                  then [Report problems
                          (InvalidValue ''from_stop_id'' (fld self ''from_stop_id'') None None)]
                  else [])
               @ [Enter ''ValidateToStopIdIsValid'', StopsKeys]
               @ (if stops sched (fld self ''to_stop_id'') = None
                  then [Report problems
                          (InvalidValue ''to_stop_id'' (fld self ''to_stop_id'') None None)]
                  else []))"
  using assms(2)
  by (auto simp add: ValidateAfterAdd_def Let_def
      ValidateFromStopIdIsValid_attached [OF assms(1)] ValidateToStopIdIsValid_attached [OF assms(1)])

lemma ValidateAfterAdd_resolved:
  assumes "p_schedule self = Some sched"
    and "stops sched (fld self ''from_stop_id'') = Some a"
    and "stops sched (fld self ''to_stop_id'') = Some b"
  shows "\<exists>es1 es2. ValidateAfterAdd util self problems tr =
           (if IsEmpty util (fld self ''traversal_time'') \<or> isinstance_int (fld self ''traversal_time'')
            then Inr () else Inl TypeError,
            tr @ [Enter ''ValidateAfterAdd'', Enter ''ValidateFromStopIdIsValid'', StopsKeys,
                  Enter ''ValidateToStopIdIsValid'', StopsKeys, Enter ''ValidatePathwayDistance'']
               @ es1 @ Enter ''ValidatePathwayWalkingTime'' # es2)
         \<and> compared es1 = []
         \<and> compared es2 =
             (if \<not> IsEmpty util (fld self ''traversal_time'') \<and> nonneg_int (fld self ''traversal_time'')
              then [(fld self ''traversal_time'', ApproximateDistanceBetweenStops util a b)]
              else [])"
proof -
  let ?d = "ApproximateDistanceBetweenStops util a b"
  let ?es1 = "[Enter ''GetPathwayDistance'', StopsGet (fld self ''from_stop_id''),
               StopsGet (fld self ''to_stop_id'')]
              @ (if ?d > 10000
                 then [Report problems (PathwayDistanceTooBig (fld self ''from_stop_id'')
                         (fld self ''to_stop_id'') ?d None)]
                 else if ?d > 2000
                 then [Report problems (PathwayDistanceTooBig (fld self ''from_stop_id'')
                         (fld self ''to_stop_id'') ?d (Some TYPE_WARNING))]
                 else [])"
  let ?tr3 = "tr @ [Enter ''ValidateAfterAdd'', Enter ''ValidateFromStopIdIsValid'', StopsKeys,
                  Enter ''ValidateToStopIdIsValid'', StopsKeys, Enter ''ValidatePathwayDistance'']
               @ ?es1"
  obtain es2 where w: "ValidatePathwayWalkingTime util self problems ?tr3 =
           (if IsEmpty util (fld self ''traversal_time'') \<or> isinstance_int (fld self ''traversal_time'')
            then Inr () else Inl TypeError,
            ?tr3 @ Enter ''ValidatePathwayWalkingTime'' # es2)"
    and c: "compared es2 =
             (if \<not> IsEmpty util (fld self ''traversal_time'') \<and> nonneg_int (fld self ''traversal_time'')
              then [(fld self ''traversal_time'', ?d)]
              else [])"
    using ValidatePathwayWalkingTime_cases [OF assms, of util problems ?tr3] by blast
  have "ValidateAfterAdd util self problems tr =
          ValidatePathwayWalkingTime util self problems ?tr3"
    using assms(2,3)
    by (simp add: ValidateAfterAdd_def Let_def
        ValidateFromStopIdIsValid_attached [OF assms(1)] ValidateToStopIdIsValid_attached [OF assms(1)]
        ValidatePathwayDistance_resolved [OF assms])
  with w have "ValidateAfterAdd util self problems tr =
           (if IsEmpty util (fld self ''traversal_time'') \<or> isinstance_int (fld self ''traversal_time'')
            then Inr () else Inl TypeError,
            tr @ [Enter ''ValidateAfterAdd'', Enter ''ValidateFromStopIdIsValid'', StopsKeys,
                  Enter ''ValidateToStopIdIsValid'', StopsKeys, Enter ''ValidatePathwayDistance'']
               @ ?es1 @ Enter ''ValidatePathwayWalkingTime'' # es2)"
    by simp
  moreover have "compared ?es1 = []"
    by simp
  ultimately show ?thesis
    using c by blast
qed


lemma ValidateBeforeAdd_split:
  "\<exists>es. ValidateBeforeAdd util self problems tr =
          (fst (ValidateBeforeAdd util self problems tr), tr @ es)
      \<and> entered es =
          [''ValidateBeforeAdd'', ''ValidateFromStopIdIsPresent'', ''ValidateToStopIdIsPresent'',
           ''ValidatePathwayMode'', ''ValidateMinimumPathwayTime'']
      \<and> stop_accesses es = [] \<and> compared es = []"
proof -
  let ?es = "new_events tr (snd (ValidateBeforeAdd util self problems tr))"
  have "snd (ValidateBeforeAdd util self problems tr) = tr @ ?es"
    by (simp add: ValidateBeforeAdd_trace)
  then have "ValidateBeforeAdd util self problems tr =
      (fst (ValidateBeforeAdd util self problems tr), tr @ ?es)"
    by (metis prod.collapse)
  then show ?thesis
    using ValidateBeforeAdd_events [of tr util self problems] by blast
qed

lemma Validate_stopped:
  assumes "\<not> (fst (ValidateBeforeAdd util self problems (tr @ [Enter ''Validate'']))
              \<and> p_schedule self \<noteq> None)"
  shows "\<exists>es. Validate util self problems tr = (Inr (), tr @ Enter ''Validate'' # es)
      \<and> entered es =
          [''ValidateBeforeAdd'', ''ValidateFromStopIdIsPresent'', ''ValidateToStopIdIsPresent'',
           ''ValidatePathwayMode'', ''ValidateMinimumPathwayTime'']
      \<and> stop_accesses es = [] \<and> compared es = []"
proof -
  obtain es where b: "ValidateBeforeAdd util self problems (tr @ [Enter ''Validate'']) =
          (fst (ValidateBeforeAdd util self problems (tr @ [Enter ''Validate''])),
           (tr @ [Enter ''Validate'']) @ es)"
    and e: "entered es =
          [''ValidateBeforeAdd'', ''ValidateFromStopIdIsPresent'', ''ValidateToStopIdIsPresent'',
           ''ValidatePathwayMode'', ''ValidateMinimumPathwayTime'']"
      "stop_accesses es = []" "compared es = []"
    using ValidateBeforeAdd_split [of util self problems "tr @ [Enter ''Validate'']"] by blast
  have "snd (ValidateBeforeAdd util self problems (tr @ [Enter ''Validate''])) =
      tr @ Enter ''Validate'' # es"
    by (subst b) simp
  then have "Validate util self problems tr = (Inr (), tr @ Enter ''Validate'' # es)"
    using assms by (auto simp add: Validate_def Let_def split_beta)
  with e show ?thesis by blast
qed

lemma Validate_continued:
  assumes "fst (ValidateBeforeAdd util self problems (tr @ [Enter ''Validate'']))"
    and "p_schedule self \<noteq> None"
  shows "\<exists>es. Validate util self problems tr =
            ValidateAfterAdd util self problems (tr @ Enter ''Validate'' # es)
      \<and> compared es = []"
proof -
  obtain es where b: "ValidateBeforeAdd util self problems (tr @ [Enter ''Validate'']) =
          (fst (ValidateBeforeAdd util self problems (tr @ [Enter ''Validate''])),
           (tr @ [Enter ''Validate'']) @ es)"
    and e: "compared es = []"
    using ValidateBeforeAdd_split [of util self problems "tr @ [Enter ''Validate'']"] by blast
  have "snd (ValidateBeforeAdd util self problems (tr @ [Enter ''Validate''])) =
      tr @ Enter ''Validate'' # es"
    by (subst b) simp
  then have "Validate util self problems tr =
      ValidateAfterAdd util self problems (tr @ Enter ''Validate'' # es)"
    using assms by (simp add: Validate_def Let_def split_beta)
  with e show ?thesis by blast
qed


text \<open>Which methods a call enters.\<close>

lemma Validate_phases_entered:
  "(''ValidateAfterAdd'' \<in> set (entered (new_events tr (snd (Validate util self problems tr))))
      \<longleftrightarrow> fst (ValidateBeforeAdd util self problems (tr @ [Enter ''Validate'']))
          \<and> p_schedule self \<noteq> None)
   \<and> (p_schedule self = Some sched \<longrightarrow>
        ''ValidateFromStopIdIsValid''
           \<in> set (entered (new_events tr (snd (ValidateAfterAdd util self problems tr))))
      \<and> ''ValidateToStopIdIsValid''
           \<in> set (entered (new_events tr (snd (ValidateAfterAdd util self problems tr))))
      \<and> (''ValidatePathwayDistance''
           \<in> set (entered (new_events tr (snd (ValidateAfterAdd util self problems tr))))
          \<longleftrightarrow> stops sched (fld self ''from_stop_id'') \<noteq> None
              \<and> stops sched (fld self ''to_stop_id'') \<noteq> None)
      \<and> (''ValidatePathwayWalkingTime''
           \<in> set (entered (new_events tr (snd (ValidateAfterAdd util self problems tr))))
          \<longleftrightarrow> stops sched (fld self ''from_stop_id'') \<noteq> None
              \<and> stops sched (fld self ''to_stop_id'') \<noteq> None))
   \<and> (p_schedule self = None \<longrightarrow>
        fst (Validate util self problems tr) = Inr ()
      \<and> ''ValidateAfterAdd'' \<notin> set (entered (new_events tr (snd (Validate util self problems tr))))
      \<and> stop_accesses (new_events tr (snd (Validate util self problems tr))) = [])"
proof (intro conjI impI)
  let ?before = "fst (ValidateBeforeAdd util self problems (tr @ [Enter ''Validate'']))"
  show "''ValidateAfterAdd'' \<in> set (entered (new_events tr (snd (Validate util self problems tr))))
      \<longleftrightarrow> ?before \<and> p_schedule self \<noteq> None"
  proof (cases "?before \<and> p_schedule self \<noteq> None")
    case False
    from Validate_stopped [OF this] show ?thesis
      using False by auto
  next
    case True
    then obtain sched' where s: "p_schedule self = Some sched'"
      by auto
    from True obtain es where v: "Validate util self problems tr =
        ValidateAfterAdd util self problems (tr @ Enter ''Validate'' # es)"
      using Validate_continued [of util self problems tr] by blast
    have "''ValidateAfterAdd''
        \<in> set (entered (new_events tr (snd (ValidateAfterAdd util self problems (tr @ Enter ''Validate'' # es)))))"
    proof (cases "stops sched' (fld self ''from_stop_id'') = None
        \<or> stops sched' (fld self ''to_stop_id'') = None")
      case True
      show ?thesis
        by (simp add: ValidateAfterAdd_unresolved [OF s True])
    next
      case False
      then obtain a b where "stops sched' (fld self ''from_stop_id'') = Some a"
        and "stops sched' (fld self ''to_stop_id'') = Some b"
        by auto
      from ValidateAfterAdd_resolved [OF s this, of util problems "tr @ Enter ''Validate'' # es"]
      show ?thesis
        by auto
    qed
    with v True show ?thesis
      by simp
  qed
next
  assume s: "p_schedule self = Some sched"
  let ?new = "new_events tr (snd (ValidateAfterAdd util self problems tr))"
  have both: "''ValidateFromStopIdIsValid'' \<in> set (entered ?new)
      \<and> ''ValidateToStopIdIsValid'' \<in> set (entered ?new)
      \<and> (''ValidatePathwayDistance'' \<in> set (entered ?new)
          \<longleftrightarrow> stops sched (fld self ''from_stop_id'') \<noteq> None
              \<and> stops sched (fld self ''to_stop_id'') \<noteq> None)
      \<and> (''ValidatePathwayWalkingTime'' \<in> set (entered ?new)
          \<longleftrightarrow> stops sched (fld self ''from_stop_id'') \<noteq> None
              \<and> stops sched (fld self ''to_stop_id'') \<noteq> None)"
  proof (cases "stops sched (fld self ''from_stop_id'') = None
        \<or> stops sched (fld self ''to_stop_id'') = None")
    case True
    then show ?thesis
      by (auto simp add: ValidateAfterAdd_unresolved [OF s True])
  next
    case False
    then obtain a b where "stops sched (fld self ''from_stop_id'') = Some a"
      and "stops sched (fld self ''to_stop_id'') = Some b"
      by auto
    from ValidateAfterAdd_resolved [OF s this, of util problems tr] False
    show ?thesis
      by auto
  qed
  from both show "''ValidateFromStopIdIsValid'' \<in> set (entered ?new)" by blast
  from both show "''ValidateToStopIdIsValid'' \<in> set (entered ?new)" by blast
  from both show "''ValidatePathwayDistance'' \<in> set (entered ?new)
          \<longleftrightarrow> stops sched (fld self ''from_stop_id'') \<noteq> None
              \<and> stops sched (fld self ''to_stop_id'') \<noteq> None" by blast
  from both show "''ValidatePathwayWalkingTime'' \<in> set (entered ?new)
          \<longleftrightarrow> stops sched (fld self ''from_stop_id'') \<noteq> None
              \<and> stops sched (fld self ''to_stop_id'') \<noteq> None" by blast
next
  assume n: "p_schedule self = None"
  then have "\<not> (fst (ValidateBeforeAdd util self problems (tr @ [Enter ''Validate'']))
              \<and> p_schedule self \<noteq> None)"
    by simp
  from Validate_stopped [OF this]
  obtain es where v: "Validate util self problems tr = (Inr (), tr @ Enter ''Validate'' # es)"
    and e: "entered es =
          [''ValidateBeforeAdd'', ''ValidateFromStopIdIsPresent'', ''ValidateToStopIdIsPresent'',
           ''ValidatePathwayMode'', ''ValidateMinimumPathwayTime'']"
      "stop_accesses es = []"
    by blast
  show "fst (Validate util self problems tr) = Inr ()"
    by (simp add: v)
  show "''ValidateAfterAdd'' \<notin> set (entered (new_events tr (snd (Validate util self problems tr))))"
    by (simp add: v e)
  show "stop_accesses (new_events tr (snd (Validate util self problems tr))) = []"
    by (simp add: v e)
qed


text \<open>What a call returns and appends to the trace.\<close>

lemma GetPathwayDistance_ext:
  "NO_MATCH [] tr \<Longrightarrow> GetPathwayDistance util self tr =
     (fst (GetPathwayDistance util self []), tr @ snd (GetPathwayDistance util self []))"
  by (simp add: GetPathwayDistance_def Let_def split: option.splits)

lemma ValidatePathwayWalkingTime_ext:
  "NO_MATCH [] tr \<Longrightarrow> ValidatePathwayWalkingTime util self problems tr =
     (fst (ValidatePathwayWalkingTime util self problems []),
      tr @ snd (ValidatePathwayWalkingTime util self problems []))"
  by (simp add: ValidatePathwayWalkingTime_def Let_def GetPathwayDistance_ext
      split: sum.splits bool.splits prod.splits)

lemma new_events_ValidatePathwayWalkingTime:
  "new_events tr (snd (ValidatePathwayWalkingTime util self problems tr)) =
     snd (ValidatePathwayWalkingTime util self problems [])"
  by (cases tr) (simp_all add: ValidatePathwayWalkingTime_ext new_events_def)

lemma fst_ValidatePathwayWalkingTime:
  "fst (ValidatePathwayWalkingTime util self problems tr) =
     fst (ValidatePathwayWalkingTime util self problems [])"
  by (cases tr) (simp_all add: ValidatePathwayWalkingTime_ext)

lemma ValidateAfterAdd_attached:
  assumes "p_schedule self = Some sched"
  shows "ValidateAfterAdd util self problems tr =
     (if stops sched (fld self ''from_stop_id'') \<noteq> None
         \<and> stops sched (fld self ''to_stop_id'') \<noteq> None
      then fst (ValidatePathwayWalkingTime util self problems trW) else Inr (),
      tr @ [Enter ''ValidateAfterAdd'', Enter ''ValidateFromStopIdIsValid'', StopsKeys]
         @ (if stops sched (fld self ''from_stop_id'') = None
            then [Report problems
                    (InvalidValue ''from_stop_id'' (fld self ''from_stop_id'') None None)]
            else [])
         @ [Enter ''ValidateToStopIdIsValid'', StopsKeys]
         @ (if stops sched (fld self ''to_stop_id'') = None
            then [Report problems
                    (InvalidValue ''to_stop_id'' (fld self ''to_stop_id'') None None)]
            else [])
         @ (if stops sched (fld self ''from_stop_id'') \<noteq> None
               \<and> stops sched (fld self ''to_stop_id'') \<noteq> None
            then new_events trD (snd (ValidatePathwayDistance util self problems trD))
                 @ new_events trW (snd (ValidatePathwayWalkingTime util self problems trW))
            else []))"
proof (cases "stops sched (fld self ''from_stop_id'') = None
        \<or> stops sched (fld self ''to_stop_id'') = None")
  case True
  then show ?thesis
    by (auto simp add: ValidateAfterAdd_unresolved [OF assms True])
next
  case False
  then obtain a b where r: "stops sched (fld self ''from_stop_id'') = Some a"
    "stops sched (fld self ''to_stop_id'') = Some b"
    by auto
  note d = ValidatePathwayDistance_resolved [OF assms r]
  have "ValidateAfterAdd util self problems tr =
          ValidatePathwayWalkingTime util self problems
            (snd (ValidatePathwayDistance util self problems
               (tr @ [Enter ''ValidateAfterAdd'', Enter ''ValidateFromStopIdIsValid'', StopsKeys,
                      Enter ''ValidateToStopIdIsValid'', StopsKeys])))"
    using r
    by (simp add: ValidateAfterAdd_def Let_def d
        ValidateFromStopIdIsValid_attached [OF assms] ValidateToStopIdIsValid_attached [OF assms])
  then show ?thesis
    using r
    by (simp add: d ValidatePathwayWalkingTime_ext new_events_ValidatePathwayWalkingTime
        fst_ValidatePathwayWalkingTime [of util self problems trW])
qed

lemma ValidateBeforeAdd_ext:
  "ValidateBeforeAdd util self problems tr =
     (fst (ValidateBeforeAdd util self problems trB),
      tr @ new_events trB (snd (ValidateBeforeAdd util self problems trB)))"
  by (simp add: ValidateBeforeAdd_trace)

lemma ValidateAfterAdd_ext:
  assumes "p_schedule self = Some sched"
  shows "ValidateAfterAdd util self problems tr =
     (fst (ValidateAfterAdd util self problems trA),
      tr @ new_events trA (snd (ValidateAfterAdd util self problems trA)))"
  by (simp add: ValidateAfterAdd_attached [OF assms, where trW = "[]" and trD = "[]"])

lemma Validate_exact:
  "Validate util self problems tr =
     (if fst (ValidateBeforeAdd util self problems trB) \<and> p_schedule self \<noteq> None
      then fst (ValidateAfterAdd util self problems trA) else Inr (),
      tr @ Enter ''Validate'' # new_events trB (snd (ValidateBeforeAdd util self problems trB))
         @ (if fst (ValidateBeforeAdd util self problems trB) \<and> p_schedule self \<noteq> None
            then new_events trA (snd (ValidateAfterAdd util self problems trA))
            else []))"
proof -
  let ?B = "new_events trB (snd (ValidateBeforeAdd util self problems trB))"
  note b = ValidateBeforeAdd_ext [of util self problems "tr @ [Enter ''Validate'']" trB]
  show ?thesis
  proof (cases "fst (ValidateBeforeAdd util self problems trB) \<and> p_schedule self \<noteq> None")
    case False
    then show ?thesis
      by (auto simp add: Validate_def Let_def b)
  next
    case True
    then obtain sched where s: "p_schedule self = Some sched"
      by auto
    have "Validate util self problems tr =
        ValidateAfterAdd util self problems ((tr @ [Enter ''Validate'']) @ ?B)"
      using True by (simp add: Validate_def Let_def b)
    also have "\<dots> =
        (fst (ValidateAfterAdd util self problems trA),
         ((tr @ [Enter ''Validate'']) @ ?B)
           @ new_events trA (snd (ValidateAfterAdd util self problems trA)))"
      by (rule ValidateAfterAdd_ext [OF s])
    finally show ?thesis
      using True by simp
  qed
qed

lemma ValidatePathwayWalkingTime_enters:
  "take 1 (new_events trW (snd (ValidatePathwayWalkingTime util self problems trW))) =
     [Enter ''ValidatePathwayWalkingTime'']"
  unfolding new_events_ValidatePathwayWalkingTime
  by (simp add: ValidatePathwayWalkingTime_def Let_def GetPathwayDistance_ext
      split: sum.splits bool.splits prod.splits)

text \<open>
  Claim C6: \<open>Validate\<close> runs \<open>ValidateBeforeAdd\<close> and then, if and only if that returned
  success and the record is attached to a registry, \<open>ValidateAfterAdd\<close>: its trace is that
  of the first phase followed by that of the second (or by nothing), and its outcome is
  that of the second phase (or a plain return). \<open>ValidateAfterAdd\<close> on an attached record
  runs both resolvability checks, each reading the keys of the stop collection and
  reporting \<open>InvalidValue\<close> for an id that does not resolve, and then runs the distance
  check (which looks both stops up) and the walking-time check if and only if both ids
  resolve. On a record that is not attached \<open>Validate\<close> returns without entering
  \<open>ValidateAfterAdd\<close> and without any access to the registry's stops. The events a method
  appends do not depend on the trace it is given: \<open>trB\<close>, \<open>trA\<close>, \<open>trD\<close> and \<open>trW\<close> stand
  for any trace.
\<close>

theorem Validate_phases:
  "Validate util self problems tr =
     (if fst (ValidateBeforeAdd util self problems trB) \<and> p_schedule self \<noteq> None
      then fst (ValidateAfterAdd util self problems trA) else Inr (),
      tr @ Enter ''Validate'' # new_events trB (snd (ValidateBeforeAdd util self problems trB))
         @ (if fst (ValidateBeforeAdd util self problems trB) \<and> p_schedule self \<noteq> None
            then new_events trA (snd (ValidateAfterAdd util self problems trA))
            else []))
   \<and> (p_schedule self = Some sched \<longrightarrow>
        ValidateAfterAdd util self problems tr =
          (if stops sched (fld self ''from_stop_id'') \<noteq> None
              \<and> stops sched (fld self ''to_stop_id'') \<noteq> None
           then fst (ValidatePathwayWalkingTime util self problems trW) else Inr (),
           tr @ [Enter ''ValidateAfterAdd'', Enter ''ValidateFromStopIdIsValid'', StopsKeys]
              @ (if stops sched (fld self ''from_stop_id'') = None
                 then [Report problems
                         (InvalidValue ''from_stop_id'' (fld self ''from_stop_id'') None None)]
                 else [])
              @ [Enter ''ValidateToStopIdIsValid'', StopsKeys]
              @ (if stops sched (fld self ''to_stop_id'') = None
                 then [Report problems
                         (InvalidValue ''to_stop_id'' (fld self ''to_stop_id'') None None)]
                 else [])
              @ (if stops sched (fld self ''from_stop_id'') \<noteq> None
                    \<and> stops sched (fld self ''to_stop_id'') \<noteq> None
                 then new_events trD (snd (ValidatePathwayDistance util self problems trD))
                      @ new_events trW (snd (ValidatePathwayWalkingTime util self problems trW))
                 else [])))
   \<and> (p_schedule self = Some sched
        \<and> stops sched (fld self ''from_stop_id'') = Some a
        \<and> stops sched (fld self ''to_stop_id'') = Some b \<longrightarrow>
        take 4 (new_events trD (snd (ValidatePathwayDistance util self problems trD))) =
          [Enter ''ValidatePathwayDistance'', Enter ''GetPathwayDistance'',
           StopsGet (fld self ''from_stop_id''), StopsGet (fld self ''to_stop_id'')])
   \<and> take 1 (new_events trW (snd (ValidatePathwayWalkingTime util self problems trW))) =
        [Enter ''ValidatePathwayWalkingTime'']
   \<and> (''ValidateAfterAdd'' \<in> set (entered (new_events tr (snd (Validate util self problems tr))))
      \<longleftrightarrow> fst (ValidateBeforeAdd util self problems (tr @ [Enter ''Validate'']))
          \<and> p_schedule self \<noteq> None)
   \<and> (p_schedule self = Some sched \<longrightarrow>
        ''ValidateFromStopIdIsValid''
           \<in> set (entered (new_events tr (snd (ValidateAfterAdd util self problems tr))))
      \<and> ''ValidateToStopIdIsValid''
           \<in> set (entered (new_events tr (snd (ValidateAfterAdd util self problems tr))))
      \<and> (''ValidatePathwayDistance''
           \<in> set (entered (new_events tr (snd (ValidateAfterAdd util self problems tr))))
          \<longleftrightarrow> stops sched (fld self ''from_stop_id'') \<noteq> None
              \<and> stops sched (fld self ''to_stop_id'') \<noteq> None)
      \<and> (''ValidatePathwayWalkingTime''
           \<in> set (entered (new_events tr (snd (ValidateAfterAdd util self problems tr))))
          \<longleftrightarrow> stops sched (fld self ''from_stop_id'') \<noteq> None
              \<and> stops sched (fld self ''to_stop_id'') \<noteq> None))
   \<and> (p_schedule self = None \<longrightarrow>
        fst (Validate util self problems tr) = Inr ()
      \<and> ''ValidateAfterAdd'' \<notin> set (entered (new_events tr (snd (Validate util self problems tr))))
      \<and> stop_accesses (new_events tr (snd (Validate util self problems tr))) = [])"
proof -
  note v = Validate_exact [of util self problems tr trB trA]
  have after: "ValidateAfterAdd util self problems tr =
          (if stops sched (fld self ''from_stop_id'') \<noteq> None
              \<and> stops sched (fld self ''to_stop_id'') \<noteq> None
           then fst (ValidatePathwayWalkingTime util self problems trW) else Inr (),
           tr @ [Enter ''ValidateAfterAdd'', Enter ''ValidateFromStopIdIsValid'', StopsKeys]
              @ (if stops sched (fld self ''from_stop_id'') = None
                 then [Report problems
                         (InvalidValue ''from_stop_id'' (fld self ''from_stop_id'') None None)]
                 else [])
              @ [Enter ''ValidateToStopIdIsValid'', StopsKeys]
              @ (if stops sched (fld self ''to_stop_id'') = None
                 then [Report problems
                         (InvalidValue ''to_stop_id'' (fld self ''to_stop_id'') None None)]
                 else [])
              @ (if stops sched (fld self ''from_stop_id'') \<noteq> None
                    \<and> stops sched (fld self ''to_stop_id'') \<noteq> None
                 then new_events trD (snd (ValidatePathwayDistance util self problems trD))
                      @ new_events trW (snd (ValidatePathwayWalkingTime util self problems trW))
                 else []))"
    if "p_schedule self = Some sched"
    by (rule ValidateAfterAdd_attached [OF that])
  have dist: "take 4 (new_events trD (snd (ValidatePathwayDistance util self problems trD))) =
          [Enter ''ValidatePathwayDistance'', Enter ''GetPathwayDistance'',
           StopsGet (fld self ''from_stop_id''), StopsGet (fld self ''to_stop_id'')]"
    if "p_schedule self = Some sched \<and> stops sched (fld self ''from_stop_id'') = Some a
        \<and> stops sched (fld self ''to_stop_id'') = Some b"
    using that by (simp add: ValidatePathwayDistance_resolved [of self sched a b])
  note walk = ValidatePathwayWalkingTime_enters [of trW util self problems]
  note e = Validate_phases_entered [of tr util self problems sched]
  from v after dist walk e show ?thesis
    by (intro conjI impI) blast+
qed

theorem Validate_phases_witness:
  "Validate util_model
      (example_pathway (PStr ''S0'') (PStr ''S500'') (PInt 2) (PInt 100) (Some example_schedule))
      0 [] =
     (Inr (),
      [Enter ''Validate'', Enter ''ValidateBeforeAdd'', Enter ''ValidateFromStopIdIsPresent'',
       Enter ''ValidateToStopIdIsPresent'', Enter ''ValidatePathwayMode'',
       Enter ''ValidateMinimumPathwayTime'',
       Enter ''ValidateAfterAdd'', Enter ''ValidateFromStopIdIsValid'', StopsKeys,
       Enter ''ValidateToStopIdIsValid'', StopsKeys,
       Enter ''ValidatePathwayDistance'', Enter ''GetPathwayDistance'',
       StopsGet (PStr ''S0''), StopsGet (PStr ''S500''),
       Enter ''ValidatePathwayWalkingTime'', Enter ''GetPathwayDistance'',
       StopsGet (PStr ''S0''), StopsGet (PStr ''S500''),
       WalkingSpeedCompare (PInt 100) 500,
       Report 0 (PathwayWalkingSpeedTooFast (PStr ''S0'') (PStr ''S500'') (PInt 100) 500)])
   \<and> ValidateAfterAdd util_model
      (example_pathway (PStr ''S7'') (PStr ''S500'') (PInt 2) (PInt 100) (Some example_schedule))
      0 [] =
     (Inr (),
      [Enter ''ValidateAfterAdd'', Enter ''ValidateFromStopIdIsValid'', StopsKeys,
       Report 0 (InvalidValue ''from_stop_id'' (PStr ''S7'') None None),
       Enter ''ValidateToStopIdIsValid'', StopsKeys])
   \<and> Validate util_model (example_pathway PNone (PStr ''S500'') (PInt 2) PNone None) 0 [] =
     (Inr (),
      [Enter ''Validate'', Enter ''ValidateBeforeAdd'', Enter ''ValidateFromStopIdIsPresent'',
       Report 0 (MissingValue ''from_stop_id''),
       Enter ''ValidateToStopIdIsPresent'', Enter ''ValidatePathwayMode'',
       Enter ''ValidateMinimumPathwayTime''])
   \<and> stop_accesses (new_events [] (snd (Validate util_model
      (example_pathway PNone (PStr ''S500'') (PInt 2) PNone None) 0 []))) = []"
  using Validate_phases
      [where tr = "[]" and trA = "[]" and trB = "[]" and trD = "[]" and trW = "[]"
         and util = util_model and problems = 0 and sched = example_schedule
         and a = 0 and b = 500
         and self = "example_pathway (PStr ''S0'') (PStr ''S500'') (PInt 2) (PInt 100)
                       (Some example_schedule)"]
    Validate_phases
      [where tr = "[]" and trA = "[]" and trB = "[]" and trD = "[]" and trW = "[]"
         and util = util_model and problems = 0 and sched = example_schedule
         and a = 0 and b = 500
         and self = "example_pathway (PStr ''S7'') (PStr ''S500'') (PInt 2) (PInt 100)
                       (Some example_schedule)"]
    Validate_phases
      [where tr = "[]" and trA = "[]" and trB = "[]" and trD = "[]" and trW = "[]"
         and util = util_model and problems = 0 and sched = example_schedule
         and a = 0 and b = 500
         and self = "example_pathway PNone (PStr ''S500'') (PInt 2) PNone None"]
  by (simp add: ValidateBeforeAdd_trace ValidateFromStopIdIsPresent_trace
      ValidateToStopIdIsPresent_trace ValidatePathwayMode_trace ValidateMinimumPathwayTime_def
      ValidateAfterAdd_def ValidateFromStopIdIsValid_def ValidateToStopIdIsValid_def
      ValidatePathwayDistance_def ValidatePathwayWalkingTime_def GetPathwayDistance_def
      py_lt_def py_add_def Let_def new_events_def
      IsEmpty_model_def is_space_def isinstance_int_def in_range_def example_schedule_def)

text \<open>
  Claim C10: a call of \<open>Validate\<close> always returns, and every time it evaluates the
  walking-speed comparison \<open>traversal_time + 120 < distance / 2\<close> the operand
  \<open>traversal_time\<close> is a non-negative integer. A non-empty \<open>traversal_time\<close> that is not an
  integer makes \<open>ValidateMinimumPathwayTime\<close> return failure, and then \<open>Validate\<close> does not
  enter \<open>ValidateAfterAdd\<close>; an empty or negative \<open>traversal_time\<close> makes
  \<open>ValidatePathwayWalkingTime\<close> return before the comparison.
\<close>

theorem Validate_comparison_operand:
  "fst (Validate util self problems tr) = Inr ()
   \<and> list_all (\<lambda>(v, d). nonneg_int v)
        (compared (new_events tr (snd (Validate util self problems tr))))
   \<and> (\<not> IsEmpty util (fld self ''traversal_time'')
        \<and> \<not> isinstance_int (fld self ''traversal_time'')
      \<longrightarrow> \<not> fst (ValidateMinimumPathwayTime util self problems tr')
        \<and> ''ValidateAfterAdd''
             \<notin> set (entered (new_events tr (snd (Validate util self problems tr)))))
   \<and> (IsEmpty util (fld self ''traversal_time'')
        \<or> (\<exists>t. fld self ''traversal_time'' = PInt t \<and> t < 0)
      \<longrightarrow> fst (ValidatePathwayWalkingTime util self problems tr) = Inr ()
        \<and> compared (new_events tr (snd (ValidatePathwayWalkingTime util self problems tr))) = [])"
proof -
  let ?before = "fst (ValidateBeforeAdd util self problems (tr @ [Enter ''Validate'']))"
  let ?tt = "fld self ''traversal_time''"
  have gate: "IsEmpty util ?tt \<or> isinstance_int ?tt" if "?before"
    using that by (simp add: ValidateBeforeAdd_trace ValidateMinimumPathwayTime_result)
  have main: "fst (Validate util self problems tr) = Inr ()
      \<and> list_all (\<lambda>(v, d). nonneg_int v)
          (compared (new_events tr (snd (Validate util self problems tr))))"
  proof (cases "?before \<and> p_schedule self \<noteq> None")
    case False
    from Validate_stopped [OF this] show ?thesis
      by auto
  next
    case True
    then obtain sched where s: "p_schedule self = Some sched"
      by auto
    from True obtain es where v: "Validate util self problems tr =
        ValidateAfterAdd util self problems (tr @ Enter ''Validate'' # es)"
      and c: "compared es = []"
      using Validate_continued [of util self problems tr] by blast
    from True have g: "IsEmpty util ?tt \<or> isinstance_int ?tt"
      using gate by blast
    show ?thesis
    proof (cases "stops sched (fld self ''from_stop_id'') = None
        \<or> stops sched (fld self ''to_stop_id'') = None")
      case True
      show ?thesis
        by (simp add: v c ValidateAfterAdd_unresolved [OF s True])
    next
      case False
      then obtain a b where "stops sched (fld self ''from_stop_id'') = Some a"
        and "stops sched (fld self ''to_stop_id'') = Some b"
        by auto
      from ValidateAfterAdd_resolved [OF s this, of util problems "tr @ Enter ''Validate'' # es"] g
      show ?thesis
        by (auto simp add: v c)
    qed
  qed
  have blocked: "\<not> fst (ValidateMinimumPathwayTime util self problems tr')
        \<and> ''ValidateAfterAdd''
             \<notin> set (entered (new_events tr (snd (Validate util self problems tr))))"
    if n: "\<not> IsEmpty util ?tt \<and> \<not> isinstance_int ?tt"
  proof -
    from n gate have "\<not> (?before \<and> p_schedule self \<noteq> None)"
      by blast
    from Validate_stopped [OF this] n show ?thesis
      by (auto simp add: ValidateMinimumPathwayTime_result)
  qed
  have early: "fst (ValidatePathwayWalkingTime util self problems tr) = Inr ()
        \<and> compared (new_events tr (snd (ValidatePathwayWalkingTime util self problems tr))) = []"
    if "IsEmpty util ?tt \<or> (\<exists>t. ?tt = PInt t \<and> t < 0)"
    by (simp add: ValidatePathwayWalkingTime_skipped [OF that])
  from main blocked early show ?thesis
    by blast
qed

theorem Validate_comparison_operand_witness:
  "compared (new_events [] (snd (Validate util_model
      (example_pathway (PStr ''S0'') (PStr ''S500'') (PInt 2) (PInt 100) (Some example_schedule))
      0 []))) = [(PInt 100, 500)]
   \<and> nonneg_int (PInt 100)
   \<and> fst (ValidateMinimumPathwayTime util_model
      (example_pathway (PStr ''S0'') (PStr ''S500'') (PInt 2) (PStr ''soon'') (Some example_schedule))
      0 []) = False
   \<and> ''ValidateAfterAdd'' \<notin> set (entered (new_events [] (snd (Validate util_model
      (example_pathway (PStr ''S0'') (PStr ''S500'') (PInt 2) (PStr ''soon'') (Some example_schedule))
      0 []))))
   \<and> compared (new_events [] (snd (ValidatePathwayWalkingTime util_model
      (example_pathway (PStr ''S0'') (PStr ''S500'') (PInt 2) (PInt (- 5)) (Some example_schedule))
      0 []))) = []"
  using Validate_comparison_operand
      [of util_model
          "example_pathway (PStr ''S0'') (PStr ''S500'') (PInt 2) (PInt 100) (Some example_schedule)"
          0 "[]" "[]"]
    Validate_comparison_operand
      [of util_model
          "example_pathway (PStr ''S0'') (PStr ''S500'') (PInt 2) (PStr ''soon'') (Some example_schedule)"
          0 "[]" "[]"]
    Validate_comparison_operand
      [of util_model
          "example_pathway (PStr ''S0'') (PStr ''S500'') (PInt 2) (PInt (- 5)) (Some example_schedule)"
          0 "[]" "[]"]
  by (simp add: Validate_def ValidateAfterAdd_def ValidateFromStopIdIsValid_def
      ValidateToStopIdIsValid_def ValidatePathwayDistance_def ValidatePathwayWalkingTime_def
      GetPathwayDistance_def py_lt_def py_add_def Let_def
      ValidateBeforeAdd_trace ValidateFromStopIdIsPresent_trace
      ValidateToStopIdIsPresent_trace ValidatePathwayMode_trace ValidateMinimumPathwayTime_def
      IsEmpty_model_def is_space_def isinstance_int_def in_range_def nonneg_int_def new_events_def)

section \<open>The constructor\<close>

lemma fold_update:
  "fold (\<lambda>(k, v) m. m(k \<mapsto> v)) xs m = m ++ map_of (rev xs)"
proof (induction xs arbitrary: m)
  case Nil
  show ?case by simp
next
  case (Cons x xs)
  obtain k v where x: "x = (k, v)" by (cases x)
  have "fold (\<lambda>(k, v) m. m(k \<mapsto> v)) (x # xs) m =
      fold (\<lambda>(k, v) m. m(k \<mapsto> v)) xs (m(k \<mapsto> v))"
    by (simp only: x fold_simps o_apply case_prod_conv)
  also have "\<dots> = m(k \<mapsto> v) ++ map_of (rev xs)"
    by (rule Cons.IH)
  also have "\<dots> = m ++ map_of (rev (x # xs))"
    by (rule ext) (simp add: x map_add_def split: option.splits)
  finally show ?case .
qed

lemma fld_setattr [simp]:
  "fld (setattr self name v) name' = (if name' = name then v else fld self name')"
  by (simp add: fld_def setattr_def)

lemma p_schedule_setattr [simp]: "p_schedule (setattr self name v) = p_schedule self"
  by (simp add: setattr_def)

lemma fld_dict_update:
  "fld (dict_update self field_dict) name =
     (case map_of (rev field_dict) name of None \<Rightarrow> fld self name | Some v \<Rightarrow> v)"
  by (simp add: fld_def dict_update_def fold_update map_add_def split: option.splits)

lemma try_NonNegIntStringToInt_caught:
  assumes "\<forall>v e. NonNegIntStringToInt util v = Inl e \<longrightarrow> e = TypeError \<or> e = ValueError"
  shows "try_NonNegIntStringToInt util self name =
           Inr (case NonNegIntStringToInt util (fld self name) of
                  Inr n \<Rightarrow> setattr self name (PInt n) | Inl e \<Rightarrow> self)"
  using assms by (auto simp add: try_NonNegIntStringToInt_def split: sum.splits)

lemma NonNegIntStringToInt_model_raises:
  "\<forall>v e. NonNegIntStringToInt util_model v = Inl e \<longrightarrow> e = TypeError \<or> e = ValueError"
  by (auto simp add: NonNegIntStringToInt_model_def split: pyval.splits if_splits)

lemma Pathway_init_steps:
  assumes "\<forall>v e. NonNegIntStringToInt util v = Inl e \<longrightarrow> e = TypeError \<or> e = ValueError"
  shows "\<exists>self. Pathway_init util schedule pathway_id from_stop_id to_stop_id pathway_mode
                  is_bidirectional traversal_time field_dict tr =
                (Inr self,
                 tr @ Enter ''__init__'' #
                   (case schedule of Some sched \<Rightarrow> [AddPathwayObject sched self None]
                    | None \<Rightarrow> []))
      \<and> fld self ''pathway_mode'' =
          (let raw = raw_field ''pathway_mode'' pathway_mode field_dict
           in if raw = PStr '''' \<or> raw = PNone then PInt 2
              else case NonNegIntStringToInt util raw of Inr n \<Rightarrow> PInt n | Inl e \<Rightarrow> raw)"
proof -
  define self0 :: "'a Pathway" where "self0 = \<lparr>attrs = Map.empty, p_schedule = None\<rparr>"
  define self1 where "self1 =
     (if truthy_dict field_dict then dict_update self0 (the field_dict)
      else setattr (setattr (setattr (setattr (setattr (setattr self0
             ''pathway_id'' pathway_id)
             ''from_stop_id'' from_stop_id)
             ''to_stop_id'' to_stop_id)
             ''pathway_mode'' pathway_mode)
             ''traversal_time'' traversal_time)
             ''is_bidirectional'' is_bidirectional)"
  define raw where "raw = raw_field ''pathway_mode'' pathway_mode field_dict"
  have "fld self0 ''pathway_mode'' = PNone"
    by (simp add: self0_def fld_def)
  then have raw: "fld self1 ''pathway_mode'' = raw"
    by (simp add: self1_def raw_def raw_field_def fld_dict_update split: option.splits)
  define self2 where "self2 =
     (if raw = PStr '''' \<or> raw = PNone then setattr self1 ''pathway_mode'' (PInt 2)
      else case NonNegIntStringToInt util raw of
             Inr n \<Rightarrow> setattr self1 ''pathway_mode'' (PInt n) | Inl e \<Rightarrow> self1)"
  have step2: "(if fld self1 ''pathway_mode'' = PStr '''' \<or> fld self1 ''pathway_mode'' = PNone
               then Inr (setattr self1 ''pathway_mode'' (PInt 2))
               else try_NonNegIntStringToInt util self1 ''pathway_mode'') = Inr self2"
    by (simp add: raw self2_def try_NonNegIntStringToInt_caught [OF assms])
  have mode2: "fld self2 ''pathway_mode'' =
      (if raw = PStr '''' \<or> raw = PNone then PInt 2
       else case NonNegIntStringToInt util raw of Inr n \<Rightarrow> PInt n | Inl e \<Rightarrow> raw)"
    by (simp add: self2_def raw split: sum.splits)
  define self3 where "self3 =
     (case NonNegIntStringToInt util (fld self2 ''traversal_time'') of
        Inr n \<Rightarrow> setattr self2 ''traversal_time'' (PInt n) | Inl e \<Rightarrow> self2)"
  have "hasattr self2 ''traversal_time''"
    by (simp add: hasattr_def FIELD_NAMES_def)
  then have step3: "(if hasattr self2 ''traversal_time''
                then try_NonNegIntStringToInt util self2 ''traversal_time''
                else Inr (setattr self2 ''traversal_time'' PNone)) = Inr self3"
    by (simp add: self3_def try_NonNegIntStringToInt_caught [OF assms])
  have mode3: "fld self3 ''pathway_mode'' = fld self2 ''pathway_mode''"
    by (simp add: self3_def split: sum.splits)
  have "Pathway_init util schedule pathway_id from_stop_id to_stop_id pathway_mode
                  is_bidirectional traversal_time field_dict tr =
                (Inr self3,
                 tr @ Enter ''__init__'' #
                   (case schedule of Some sched \<Rightarrow> [AddPathwayObject sched self3 None]
                    | None \<Rightarrow> []))"
    apply (simp only: Pathway_init_def Let_def)
    apply (fold self0_def)
    apply (fold self1_def)
    apply (simp only: step2 step3 sum.case)
    apply (cases schedule)
     apply simp_all
    done
  moreover have "fld self3 ''pathway_mode'' =
          (let raw = raw_field ''pathway_mode'' pathway_mode field_dict
           in if raw = PStr [] \<or> raw = PNone then PInt 2
              else case NonNegIntStringToInt util raw of Inr n \<Rightarrow> PInt n | Inl e \<Rightarrow> raw)"
    unfolding Let_def raw_def [symmetric] using mode3 mode2 by simp
  ultimately show ?thesis
    by (intro exI [of _ self3] conjI)
qed

lemma Pathway_init_schedule:
  "Pathway_init util schedule pathway_id from_stop_id to_stop_id pathway_mode
       is_bidirectional traversal_time field_dict tr =
     (case fst (Pathway_init util None pathway_id from_stop_id to_stop_id pathway_mode
                  is_bidirectional traversal_time field_dict []) of
        Inl e \<Rightarrow> (Inl e, tr @ [Enter ''__init__''])
      | Inr self \<Rightarrow>
          (Inr self,
           tr @ Enter ''__init__'' #
             (case schedule of Some sched \<Rightarrow> [AddPathwayObject sched self None]
              | None \<Rightarrow> [])))"
proof -
  define self0 :: "'a Pathway" where "self0 = \<lparr>attrs = Map.empty, p_schedule = None\<rparr>"
  define self1 where "self1 =
     (if truthy_dict field_dict then dict_update self0 (the field_dict)
      else setattr (setattr (setattr (setattr (setattr (setattr self0
             ''pathway_id'' pathway_id)
             ''from_stop_id'' from_stop_id)
             ''to_stop_id'' to_stop_id)
             ''pathway_mode'' pathway_mode)
             ''traversal_time'' traversal_time)
             ''is_bidirectional'' is_bidirectional)"
  define r2 where "r2 =
     (if fld self1 ''pathway_mode'' = PStr '''' \<or> fld self1 ''pathway_mode'' = PNone
      then Inr (setattr self1 ''pathway_mode'' (PInt 2))
      else try_NonNegIntStringToInt util self1 ''pathway_mode'')"
  define r3 where "r3 =
     (case r2 of
        Inl e \<Rightarrow> Inl e
      | Inr self2 \<Rightarrow>
          if hasattr self2 ''traversal_time''
          then try_NonNegIntStringToInt util self2 ''traversal_time''
          else Inr (setattr self2 ''traversal_time'' PNone))"
  have init: "Pathway_init util schedule' pathway_id from_stop_id to_stop_id pathway_mode
       is_bidirectional traversal_time field_dict tr' =
     (case r3 of
        Inl e \<Rightarrow> (Inl e, tr' @ [Enter ''__init__''])
      | Inr self3 \<Rightarrow>
          (Inr self3,
           tr' @ Enter ''__init__'' #
             (case schedule' of Some sched \<Rightarrow> [AddPathwayObject sched self3 None]
              | None \<Rightarrow> [])))" for schedule' tr'
    apply (simp only: Pathway_init_def Let_def)
    apply (fold self0_def)
    apply (fold self1_def)
    apply (fold r2_def)
    apply (cases r2)
     apply (simp_all add: r3_def split: sum.split option.split)
    done
  show ?thesis
    unfolding init by (cases r3) simp_all
qed

lemma result_field_pathway_mode:
  assumes "\<forall>v e. NonNegIntStringToInt util v = Inl e \<longrightarrow> e = TypeError \<or> e = ValueError"
    and "raw = raw_field ''pathway_mode'' pathway_mode field_dict"
  shows "result_field ''pathway_mode''
           (fst (Pathway_init util schedule pathway_id from_stop_id to_stop_id pathway_mode
                   is_bidirectional traversal_time field_dict tr)) =
         Inr (if raw = PStr '''' \<or> raw = PNone then PInt 2
              else case NonNegIntStringToInt util raw of Inr n \<Rightarrow> PInt n | Inl e \<Rightarrow> raw)"
proof -
  from Pathway_init_steps [OF assms(1), of schedule pathway_id from_stop_id to_stop_id
      pathway_mode is_bidirectional traversal_time field_dict tr]
  obtain self where "fst (Pathway_init util schedule pathway_id from_stop_id to_stop_id
      pathway_mode is_bidirectional traversal_time field_dict tr) = Inr self"
    and "fld self ''pathway_mode'' =
         (if raw = PStr '''' \<or> raw = PNone then PInt 2
          else case NonNegIntStringToInt util raw of Inr n \<Rightarrow> PInt n | Inl e \<Rightarrow> raw)"
    unfolding Let_def assms(2) by fastforce
  then show ?thesis
    by (simp add: result_field_def)
qed

text \<open>
  Claim C7: for every construction, from explicit fields or from a field mapping, if
  \<open>pathway_mode\<close> is absent, \<open>None\<close> or the empty string the constructed record's
  \<open>pathway_mode\<close> is 2; otherwise the non-negative-integer parse is applied, its result
  is stored on success, and on failure (the parse raises \<open>TypeError\<close> or \<open>ValueError\<close>,
  the only exceptions of the helper) the original value is left unchanged; construction
  returns a record in every case.
\<close>

theorem Pathway_init_pathway_mode:
  assumes "\<forall>v e. NonNegIntStringToInt util v = Inl e \<longrightarrow> e = TypeError \<or> e = ValueError"
    and "raw = raw_field ''pathway_mode'' pathway_mode field_dict"
  shows "result_field ''pathway_mode''
           (fst (Pathway_init util schedule pathway_id from_stop_id to_stop_id pathway_mode
                   is_bidirectional traversal_time field_dict tr)) =
         Inr (if raw = PStr '''' \<or> raw = PNone then PInt 2
              else case NonNegIntStringToInt util raw of Inr n \<Rightarrow> PInt n | Inl e \<Rightarrow> raw)"
  by (rule result_field_pathway_mode [OF assms])

theorem Pathway_init_pathway_mode_witness:
  "result_field ''pathway_mode''
      (fst (Pathway_init util_model None (PStr ''P1'') (PStr ''S0'') (PStr ''S200'') PNone
              (PStr ''1'') PNone None [])) = Inr (PInt 2)
   \<and> result_field ''pathway_mode''
      (fst (Pathway_init util_model None PNone PNone PNone PNone PNone PNone
              (Some [(''pathway_id'', PStr ''P1''), (''pathway_mode'', PStr '''')]) [])) = Inr (PInt 2)
   \<and> result_field ''pathway_mode''
      (fst (Pathway_init util_model None PNone PNone PNone PNone PNone PNone
              (Some [(''pathway_id'', PStr ''P1'')]) [])) = Inr (PInt 2)
   \<and> result_field ''pathway_mode''
      (fst (Pathway_init util_model None (PStr ''P1'') (PStr ''S0'') (PStr ''S200'') (PStr ''4'')
              (PStr ''1'') PNone None [])) = Inr (PInt 4)
   \<and> result_field ''pathway_mode''
      (fst (Pathway_init util_model None (PStr ''P1'') (PStr ''S0'') (PStr ''S200'') (PStr ''stairs'')
              (PStr ''1'') PNone None [])) = Inr (PStr ''stairs'')
   \<and> result_field ''pathway_mode''
      (fst (Pathway_init util_model None (PStr ''P1'') (PStr ''S0'') (PStr ''S200'') (PStr ''-1'')
              (PStr ''1'') PNone None [])) = Inr (PStr ''-1'')"
  using Pathway_init_pathway_mode [OF NonNegIntStringToInt_model_raises refl,
      where pathway_mode = PNone and field_dict = None and schedule = None
        and pathway_id = "PStr ''P1''" and from_stop_id = "PStr ''S0''"
        and to_stop_id = "PStr ''S200''" and is_bidirectional = "PStr ''1''"
        and traversal_time = PNone and tr = "[]"]
    Pathway_init_pathway_mode [OF NonNegIntStringToInt_model_raises refl,
      where pathway_mode = PNone
        and field_dict = "Some [(''pathway_id'', PStr ''P1''), (''pathway_mode'', PStr '''')]"
        and schedule = None and pathway_id = PNone and from_stop_id = PNone
        and to_stop_id = PNone and is_bidirectional = PNone
        and traversal_time = PNone and tr = "[]"]
    Pathway_init_pathway_mode [OF NonNegIntStringToInt_model_raises refl,
      where pathway_mode = PNone
        and field_dict = "Some [(''pathway_id'', PStr ''P1'')]"
        and schedule = None and pathway_id = PNone and from_stop_id = PNone
        and to_stop_id = PNone and is_bidirectional = PNone
        and traversal_time = PNone and tr = "[]"]
    Pathway_init_pathway_mode [OF NonNegIntStringToInt_model_raises refl,
      where pathway_mode = "PStr ''4''" and field_dict = None and schedule = None
        and pathway_id = "PStr ''P1''" and from_stop_id = "PStr ''S0''"
        and to_stop_id = "PStr ''S200''" and is_bidirectional = "PStr ''1''"
        and traversal_time = PNone and tr = "[]"]
    Pathway_init_pathway_mode [OF NonNegIntStringToInt_model_raises refl,
      where pathway_mode = "PStr ''stairs''" and field_dict = None and schedule = None
        and pathway_id = "PStr ''P1''" and from_stop_id = "PStr ''S0''"
        and to_stop_id = "PStr ''S200''" and is_bidirectional = "PStr ''1''"
        and traversal_time = PNone and tr = "[]"]
    Pathway_init_pathway_mode [OF NonNegIntStringToInt_model_raises refl,
      where pathway_mode = "PStr ''-1''" and field_dict = None and schedule = None
        and pathway_id = "PStr ''P1''" and from_stop_id = "PStr ''S0''"
        and to_stop_id = "PStr ''S200''" and is_bidirectional = "PStr ''1''"
        and traversal_time = PNone and tr = "[]"]
  by (simp add: raw_field_def truthy_dict_def NonNegIntStringToInt_model_def is_digit_def)

lemma example_construction:
  "Pathway_init util_model schedule (PStr ''P1'') f t (PInt 2) (PStr ''1'') PNone None tr =
     (Inr (example_pathway f t (PInt 2) PNone None),
      tr @ Enter ''__init__'' #
        (case schedule of Some sched \<Rightarrow>
           [AddPathwayObject sched (example_pathway f t (PInt 2) PNone None) None]
         | None \<Rightarrow> []))"
  by (simp add: Pathway_init_def Let_def truthy_dict_def try_NonNegIntStringToInt_def
      NonNegIntStringToInt_model_def hasattr_def FIELD_NAMES_def fld_def setattr_def
      example_pathway_def split: option.split)

text \<open>
  Claim C8, as the spec states it: after every construction \<open>pathway_mode\<close> is an integer
  in 1-7 or the original unparsed input, so that no record holds a successfully parsed
  integer outside 1-7. The constructor stores whatever the parse returns: the input
  \<open>"8"\<close> parses, and the record holds the integer 8, which is outside 1-7 and is not the
  original input.
\<close>

theorem pathway_mode_8_is_stored:
  "result_field ''pathway_mode''
      (fst (Pathway_init util_model None (PStr ''P1'') (PStr ''S0'') (PStr ''S200'') (PStr ''8'')
              (PStr ''1'') PNone None [])) = Inr (PInt 8)
   \<and> NonNegIntStringToInt util_model (PStr ''8'') = Inr 8
   \<and> \<not> in_range (PInt 8) 1 8
   \<and> PInt 8 \<noteq> PStr ''8''"
  using result_field_pathway_mode [OF NonNegIntStringToInt_model_raises refl,
      where pathway_mode = "PStr ''8''" and field_dict = None and schedule = None
        and pathway_id = "PStr ''P1''" and from_stop_id = "PStr ''S0''"
        and to_stop_id = "PStr ''S200''" and is_bidirectional = "PStr ''1''"
        and traversal_time = PNone and tr = "[]"]
  by (simp add: raw_field_def truthy_dict_def NonNegIntStringToInt_model_def is_digit_def
      in_range_def)

text \<open>
  Claim C8, amended: after every construction the record's \<open>pathway_mode\<close> is never blank
  (neither the empty string nor \<open>None\<close>): it is 2, or the integer that the
  non-negative-integer parse of the input returned (whatever its value), or the original
  input, which the parse rejected.
\<close>

theorem Pathway_init_pathway_mode_not_blank:
  assumes "\<forall>v e. NonNegIntStringToInt util v = Inl e \<longrightarrow> e = TypeError \<or> e = ValueError"
    and "raw = raw_field ''pathway_mode'' pathway_mode field_dict"
  shows "\<exists>v. result_field ''pathway_mode''
               (fst (Pathway_init util schedule pathway_id from_stop_id to_stop_id pathway_mode
                       is_bidirectional traversal_time field_dict tr)) = Inr v
           \<and> v \<noteq> PNone \<and> v \<noteq> PStr ''''
           \<and> (v = PInt 2
               \<or> (\<exists>n. NonNegIntStringToInt util raw = Inr n \<and> v = PInt n)
               \<or> (\<exists>e. NonNegIntStringToInt util raw = Inl e \<and> v = raw))"
  unfolding result_field_pathway_mode [OF assms]
  by (cases "NonNegIntStringToInt util raw") auto

theorem Pathway_init_pathway_mode_not_blank_witness:
  "result_field ''pathway_mode''
      (fst (Pathway_init util_model None (PStr ''P1'') (PStr ''S0'') (PStr ''S200'') (PStr ''0'')
              (PStr ''1'') PNone None [])) = Inr (PInt 0)
   \<and> NonNegIntStringToInt util_model (PStr ''0'') = Inr 0
   \<and> PInt 0 \<noteq> PNone \<and> PInt 0 \<noteq> PStr ''''"
  using Pathway_init_pathway_mode_not_blank [OF NonNegIntStringToInt_model_raises refl,
      where pathway_mode = "PStr ''0''" and field_dict = None and schedule = None
        and pathway_id = "PStr ''P1''" and from_stop_id = "PStr ''S0''"
        and to_stop_id = "PStr ''S200''" and is_bidirectional = "PStr ''1''"
        and traversal_time = PNone and tr = "[]"]
    result_field_pathway_mode [OF NonNegIntStringToInt_model_raises refl,
      where pathway_mode = "PStr ''0''" and field_dict = None and schedule = None
        and pathway_id = "PStr ''P1''" and from_stop_id = "PStr ''S0''"
        and to_stop_id = "PStr ''S200''" and is_bidirectional = "PStr ''1''"
        and traversal_time = PNone and tr = "[]"]
  by (auto simp add: raw_field_def truthy_dict_def NonNegIntStringToInt_model_def is_digit_def)

text \<open>
  Claim C9, as the spec states it: constructing a record with a registry performs the
  same registration call, with the same arguments, as an explicit
  \<open>AddToSchedule(registry, reporter)\<close>. The constructor calls \<open>AddPathwayObject(self)\<close>
  (line 62) and \<open>AddToSchedule\<close> calls \<open>AddPathwayObject(self, problems)\<close> (line 198): the
  constructor passes no reporter.
\<close>

theorem constructor_passes_no_reporter:
  "registry_calls (snd (Pathway_init util_model (Some example_schedule) (PStr ''P1'')
      (PStr ''S0'') (PStr ''S200'') (PInt 2) (PStr ''1'') PNone None [])) =
     [AddPathwayObject example_schedule
        (example_pathway (PStr ''S0'') (PStr ''S200'') (PInt 2) PNone None) None]
   \<and> registry_calls (AddToSchedule
        (example_pathway (PStr ''S0'') (PStr ''S200'') (PInt 2) PNone None) example_schedule 0 []) =
     [AddPathwayObject example_schedule
        (example_pathway (PStr ''S0'') (PStr ''S200'') (PInt 2) PNone None) (Some 0)]
   \<and> registry_calls (snd (Pathway_init util_model (Some example_schedule) (PStr ''P1'')
      (PStr ''S0'') (PStr ''S200'') (PInt 2) (PStr ''1'') PNone None [])) \<noteq>
     registry_calls (AddToSchedule
        (example_pathway (PStr ''S0'') (PStr ''S200'') (PInt 2) PNone None) example_schedule 0 [])"
  by (simp add: example_construction AddToSchedule_def)

text \<open>
  Claim C9, amended: constructing a record with a registry argument makes one
  registration call, \<open>AddPathwayObject\<close> on that registry with the constructed record and
  no reporter argument; the record is the one the same construction without a registry
  returns, which makes no registration call; and \<open>AddToSchedule(registry, reporter)\<close> on
  that record makes one registration call, \<open>AddPathwayObject\<close> on the registry with the
  same record and the reporter. The two calls agree on the registry and the record and
  differ in the reporter argument.
\<close>

theorem constructor_registration:
  assumes "fst (Pathway_init util (Some sched) pathway_id from_stop_id to_stop_id pathway_mode
                  is_bidirectional traversal_time field_dict tr) = Inr self"
  shows "fst (Pathway_init util None pathway_id from_stop_id to_stop_id pathway_mode
                is_bidirectional traversal_time field_dict tr) = Inr self
       \<and> registry_calls (new_events tr
            (snd (Pathway_init util (Some sched) pathway_id from_stop_id to_stop_id pathway_mode
                    is_bidirectional traversal_time field_dict tr))) =
           [AddPathwayObject sched self None]
       \<and> registry_calls (new_events tr
            (snd (Pathway_init util None pathway_id from_stop_id to_stop_id pathway_mode
                    is_bidirectional traversal_time field_dict tr))) = []
       \<and> registry_calls (new_events tr' (AddToSchedule self sched problems tr')) =
           [AddPathwayObject sched self (Some problems)]"
proof -
  let ?r = "fst (Pathway_init util None pathway_id from_stop_id to_stop_id pathway_mode
                   is_bidirectional traversal_time field_dict [])"
  have a: "Pathway_init util (Some sched) pathway_id from_stop_id to_stop_id pathway_mode
              is_bidirectional traversal_time field_dict tr =
           (case ?r of
              Inl e \<Rightarrow> (Inl e, tr @ [Enter ''__init__''])
            | Inr self \<Rightarrow> (Inr self, tr @ Enter ''__init__'' # [AddPathwayObject sched self None]))"
    by (subst Pathway_init_schedule) (simp split: sum.split)
  have b: "Pathway_init util None pathway_id from_stop_id to_stop_id pathway_mode
              is_bidirectional traversal_time field_dict tr =
           (case ?r of
              Inl e \<Rightarrow> (Inl e, tr @ [Enter ''__init__''])
            | Inr self \<Rightarrow> (Inr self, tr @ Enter ''__init__'' # []))"
    by (subst Pathway_init_schedule) (simp split: sum.split)
  from assms have r: "?r = Inr self"
    unfolding a by (cases ?r) simp_all
  show ?thesis
    unfolding a b r by (simp add: AddToSchedule_def)
qed

theorem constructor_registration_witness:
  "fst (Pathway_init util_model (Some example_schedule) (PStr ''P1'') (PStr ''S0'') (PStr ''S200'')
          (PInt 2) (PStr ''1'') PNone None []) =
     Inr (example_pathway (PStr ''S0'') (PStr ''S200'') (PInt 2) PNone None)
   \<and> fst (Pathway_init util_model None (PStr ''P1'') (PStr ''S0'') (PStr ''S200'')
          (PInt 2) (PStr ''1'') PNone None []) =
     Inr (example_pathway (PStr ''S0'') (PStr ''S200'') (PInt 2) PNone None)
   \<and> registry_calls (new_events [] (snd (Pathway_init util_model (Some example_schedule)
          (PStr ''P1'') (PStr ''S0'') (PStr ''S200'') (PInt 2) (PStr ''1'') PNone None []))) =
     [AddPathwayObject example_schedule
        (example_pathway (PStr ''S0'') (PStr ''S200'') (PInt 2) PNone None) None]
   \<and> registry_calls (new_events [] (AddToSchedule
        (example_pathway (PStr ''S0'') (PStr ''S200'') (PInt 2) PNone None) example_schedule 7 [])) =
     [AddPathwayObject example_schedule
        (example_pathway (PStr ''S0'') (PStr ''S200'') (PInt 2) PNone None) (Some 7)]"
proof -
  have h: "fst (Pathway_init util_model (Some example_schedule) (PStr ''P1'') (PStr ''S0'')
          (PStr ''S200'') (PInt 2) (PStr ''1'') PNone None []) =
     Inr (example_pathway (PStr ''S0'') (PStr ''S200'') (PInt 2) PNone None)"
    by (simp add: example_construction)
  from constructor_registration [OF h, of "[]" 7] h show ?thesis
    by simp
qed

end
